theory Spec2Isabelle
  imports Complex_Main
begin

section \<open>Values, exceptions and the key-value store\<close>

text \<open>
  The resource cache of \<^verbatim>\<open>litmapper/kv/util.py\<close> and the schemas of
  \<^verbatim>\<open>litmapper/schemas.py\<close>. Python floats are modelled by their rational values
  (every finite float is one); byte strings and text strings are both \<open>string\<close>.
  An exception is identified by its class; the message text is not modelled.
\<close>

type_synonym float = rat
type_synonym bytes = string

datatype exn =
    ResourceCreationInProgress
  | ResourceDoesNotExist
  | ResourceExists
  | TypeError
  | ValueError
  | ValidationError
  | AttributeError
  | ZeroDivisionError
  | RuntimeError
  | DataError
  | Shutdown
  | TimeLimitExceeded
  | KeyboardInterrupt

text \<open>
  \<open>isinstance(e, Exception)\<close>: the classes of \<^verbatim>\<open>errors.py\<close> and the built-in errors
  derive from \<open>Exception\<close>; dramatiq's \<open>Shutdown\<close> and \<open>TimeLimitExceeded\<close> derive from
  \<open>Interrupt\<close>, a \<open>BaseException\<close>, as \<open>KeyboardInterrupt\<close> does.
\<close>

fun isinstance_Exception :: "exn \<Rightarrow> bool" where
  "isinstance_Exception Shutdown = False"
| "isinstance_Exception TimeLimitExceeded = False"
| "isinstance_Exception KeyboardInterrupt = False"
| "isinstance_Exception _ = True"

text \<open>pydantic's \<open>ValidationError\<close> is a subclass of \<open>ValueError\<close>.\<close>

definition isinstance_ValueError :: "exn \<Rightarrow> bool" where
  "isinstance_ValueError e = (e = ValueError \<or> e = ValidationError)"

text \<open>
  The Redis connection: a store of hashes, addressed by the name of the hash and a field.
  \<open>hget\<close> returns \<open>None\<close> for a missing field.
\<close>

type_synonym kv = "string \<times> string \<Rightarrow> bytes option"

definition hget :: "kv \<Rightarrow> string \<Rightarrow> string \<Rightarrow> bytes option" where
  "hget kv name key = kv (name, key)"

definition hset :: "kv \<Rightarrow> string \<Rightarrow> string \<Rightarrow> bytes \<Rightarrow> kv" where
  "hset kv name key val = kv((name, key) \<mapsto> val)"

definition hsetnx :: "kv \<Rightarrow> string \<Rightarrow> string \<Rightarrow> bytes \<Rightarrow> kv" where
  "hsetnx kv name key val = (case kv (name, key) of None \<Rightarrow> kv((name, key) \<mapsto> val) | Some _ \<Rightarrow> kv)"

definition hdel :: "kv \<Rightarrow> string \<Rightarrow> string \<Rightarrow> kv" where
  "hdel kv name key = kv((name, key) := None)"

section \<open>Schemas\<close>

record FilterSetParams =
  full_text_search_query :: "string option"
  temp_article_ids :: "int list option"
  limit :: "int option"

record ClusteringParams =
  filter_set :: FilterSetParams
  umap_seed :: int
  umap_n_neighbors :: int
  umap_metric :: string
  umap_min_dist :: float
  hdbscan_min_cluster_size :: int
  hdbscan_min_samples :: int
  hdbscan_cluster_selection_epsilon :: float
  hdbscan_do_flat_clustering :: bool
  hdbscan_cluster_flattening_epsilon :: float

datatype ArticleGroupSummaryTerms = NAMED_ENTITIES | MESH_TERMS

fun ArticleGroupSummaryTerms_value :: "ArticleGroupSummaryTerms \<Rightarrow> string" where
  "ArticleGroupSummaryTerms_value NAMED_ENTITIES = ''named entities''"
| "ArticleGroupSummaryTerms_value MESH_TERMS = ''mesh terms''"

record ArticleGroupParams =
  clustering :: ClusteringParams
  num_terms :: int
  summary_terms :: ArticleGroupSummaryTerms

text \<open>
  A value of static type \<open>HashableBaseModel\<close> is an instance of one of the three parameter
  classes. The class objects themselves include the base class, which no table registers.
\<close>

datatype HashableBaseModel =
    PFilterSet FilterSetParams
  | PClustering ClusteringParams
  | PArticleGroup ArticleGroupParams

datatype resource_cls =
    FilterSetParams_cls
  | ClusteringParams_cls
  | ArticleGroupParams_cls
  | HashableBaseModel_cls

fun class_of :: "HashableBaseModel \<Rightarrow> resource_cls" where
  "class_of (PFilterSet _) = FilterSetParams_cls"
| "class_of (PClustering _) = ClusteringParams_cls"
| "class_of (PArticleGroup _) = ArticleGroupParams_cls"

datatype result_cls = FilterSetResult_cls | ClusteringResult_cls | ArticleGroupResult_cls

record FilterSetResult =
  article_ids :: "int list"

datatype plotly_value = PInts "int list" | PFloats "float list" | PStrs "string list"

record PlotlyScatter =
  x :: "float list"
  y :: "float list"
  mode :: string
  extra :: "(string \<times> plotly_value) list"
  marker :: "(string \<times> plotly_value) list"

record ClusteringOverallMetrics =
  dbcv :: "float option"
  silhoutte_coefficient :: "float option"
  davies_bouldin_index :: "float option"
  dunn_index :: "float option"

record ClusteringLabelInfo =
  n_per_cluster :: "int list"
  cluster_validity_indices :: "float list"
  cluster_center_coords :: "(float \<times> float) list"
  label_plotly_data :: "PlotlyScatter option"

record ClusteringResult =
  cr_article_ids :: "int list"
  labels :: "int option list"
  coords :: "(float \<times> float) list"
  num_clusters :: int
  metrics :: ClusteringOverallMetrics
  label_info :: ClusteringLabelInfo
  plotly_data :: "PlotlyScatter option"

record ArticleGroup =
  id' :: int
  num_articles :: int
  ag_article_ids :: "int list"
  top_terms :: "string list"

text \<open>
  \<open>ArticleGroupResult.plotly_data\<close> is a heat map that a validator derives from
  \<open>result\<close> alone, whenever the model is built; it is left out.
\<close>

record ArticleGroupResult =
  result :: "ArticleGroup list"

datatype BaseModel =
    RFilterSet FilterSetResult
  | RClustering ClusteringResult
  | RArticleGroup ArticleGroupResult

section \<open>External collaborators\<close>

text \<open>
  A JSON document, as \<open>json.loads\<close> returns it and \<open>json.dumps\<close> takes it: \<open>None\<close>,
  a boolean, an integer, a float, a string, a list or a dictionary with string keys (each
  key once, in insertion order).
\<close>

datatype json_value =
    JNull
  | JBool bool
  | JInt int
  | JFloat float
  | JStr string
  | JArr "json_value list"
  | JObj "(string \<times> json_value) list"

text \<open>
  What the code calls and this repository does not define: Python's built-in \<open>hash\<close> on
  strings, numbers, \<open>None\<close> and tuples (seeded per process by \<open>PYTHONHASHSEED\<close>); the
  text layer of JSON, \<open>json.dumps\<close> and \<open>json.loads\<close> (\<open>None\<close> when the bytes do not
  decode); the conversions pydantic falls back on for a value that is not of the declared
  type, \<open>int(v)\<close>, \<open>float(v)\<close> and \<open>str(v)\<close> (\<open>None\<close> when they raise) and
  \<open>dict(v)\<close> with the keyword call that follows it (with the exception that either
  raises); the rows the database returns; and the numeric libraries. A fitted HDBSCAN
  object carries its \<open>labels_\<close> (here \<open>labels'\<close>) and the cut of its single linkage
  tree.
\<close>

record clusterer =
  labels' :: "int list"
  single_linkage_tree_get_clusters :: "float \<Rightarrow> int \<Rightarrow> exn + int list"

record ext =
  hash_str :: "string \<Rightarrow> int"
  hash_int :: "int \<Rightarrow> int"
  hash_float :: "float \<Rightarrow> int"
  hash_bool :: "bool \<Rightarrow> int"
  hash_none :: int
  hash_tuple :: "int list \<Rightarrow> int"
  json_dumps :: "json_value \<Rightarrow> bytes"
  json_loads :: "bytes \<Rightarrow> json_value option"
  lax_int :: "json_value \<Rightarrow> int option"
  lax_float :: "json_value \<Rightarrow> float option"
  lax_str :: "json_value \<Rightarrow> string option"
  lax_dict :: "json_value \<Rightarrow> exn + (string \<times> json_value) list"
  db_filter_articles :: "string option \<Rightarrow> int list"
  db_article_embeddings :: "int list \<Rightarrow> (int \<times> float list) list"
  db_article_data :: "int list \<Rightarrow> (int \<times> string \<times> float list \<times> string list) list"
  UMAP_fit_transform :: "int \<Rightarrow> string \<Rightarrow> float \<Rightarrow> int \<Rightarrow> float list list \<Rightarrow> exn + (float \<times> float) list"
  HDBSCAN_fit :: "int \<Rightarrow> int \<Rightarrow> float \<Rightarrow> (float \<times> float) list \<Rightarrow> exn + clusterer"
  validity_index :: "(float \<times> float) list \<Rightarrow> int list \<Rightarrow> exn + float \<times> float list"
  silhouette_score :: "(float \<times> float) list \<Rightarrow> int list \<Rightarrow> exn + float"
  davies_bouldin_score :: "(float \<times> float) list \<Rightarrow> int list \<Rightarrow> exn + float"
  dunn_index_score :: "(float \<times> float) list \<Rightarrow> int list \<Rightarrow> exn + float"
  glasbey_dark :: "string list"
  named_entities :: "string \<Rightarrow> string list"
  embed :: "string list \<Rightarrow> float list list"
  np_average :: "float list list \<Rightarrow> exn + float list"
  cosine_distance :: "float list \<Rightarrow> float list \<Rightarrow> float"

definition and_then :: "exn + 'a \<Rightarrow> ('a \<Rightarrow> exn + 'b) \<Rightarrow> exn + 'b" where
  \<comment> \<open>sequencing of two statements: an exception of the first skips the second\<close>
  "and_then r f = (case r of Inl e \<Rightarrow> Inl e | Inr a \<Rightarrow> f a)"

fun collect :: "('a \<Rightarrow> exn + 'b) \<Rightarrow> 'a list \<Rightarrow> exn + 'b list" where
  \<comment> \<open>a loop that builds a list, left at the first exception\<close>
  "collect f [] = Inr []"
| "collect f (a # as) = and_then (f a) (\<lambda>b. and_then (collect f as) (\<lambda>bs. Inr (b # bs)))"

section \<open>Model construction and validators\<close>

text \<open>
  \<open>ClusteringOverallMetrics(**kwargs)\<close>: pydantic reads each declared field from the
  keyword arguments by name, gives an absent \<open>Optional\<close> field \<open>None\<close> and ignores a
  keyword that names no field.
\<close>

definition kwarg :: "(string \<times> 'a option) list \<Rightarrow> string \<Rightarrow> 'a option" where
  "kwarg kwargs name = (case map_of kwargs name of None \<Rightarrow> None | Some v \<Rightarrow> v)"

definition ClusteringOverallMetrics_init :: "(string \<times> float option) list \<Rightarrow> ClusteringOverallMetrics" where
  "ClusteringOverallMetrics_init kwargs =
     \<lparr>dbcv = kwarg kwargs ''dbcv'',
      silhoutte_coefficient = kwarg kwargs ''silhoutte_coefficient'',
      davies_bouldin_index = kwarg kwargs ''davies_bouldin_index'',
      dunn_index = kwarg kwargs ''dunn_index''\<rparr>"

definition PlotlyScatter_init ::
  "float list \<Rightarrow> float list \<Rightarrow> (string \<times> plotly_value) list \<Rightarrow> (string \<times> plotly_value) list \<Rightarrow> PlotlyScatter" where
  "PlotlyScatter_init xs ys ex mk = \<lparr>x = xs, y = ys, mode = ''markers'', extra = ex, marker = mk\<rparr>"

text \<open>
  \<open>ClusteringLabelInfo\<close>: the validator \<open>list_lengths_match\<close> on
  \<open>cluster_center_coords\<close>, then \<open>to_plotly\<close>.
\<close>

definition ClusteringLabelInfo_init ::
  "int list \<Rightarrow> float list \<Rightarrow> (float \<times> float) list \<Rightarrow> exn + ClusteringLabelInfo" where
  "ClusteringLabelInfo_init npc cvi ccc =
     (let num_clusters = length npc; num_indices = length cvi; num_coords = length ccc in
      if \<not> (num_clusters = num_indices \<and> num_indices = num_coords) then Inl ValidationError
      else Inr
        \<lparr>n_per_cluster = npc,
         cluster_validity_indices = cvi,
         cluster_center_coords = ccc,
         label_plotly_data = Some
           (if length ccc = 0 then PlotlyScatter_init [] [] [] []
            else PlotlyScatter_init (map fst ccc) (map snd ccc)
                   [(''n_per_cluster'', PInts npc), (''cluster_validity_indices'', PFloats cvi)] [])\<rparr>)"

text \<open>
  \<open>ClusteringResult\<close>: the validator \<open>list_lengths_match\<close> on \<open>coords\<close>, then
  \<open>to_plotly\<close>, which keeps the points that have a cluster and unpacks
  \<open>zip(*points_with_cluster)\<close> into three names: with no such point the unpacking raises
  \<open>ValueError\<close>, which pydantic reports as a validation error. An empty palette would make
  the modulus raise.
\<close>

definition ClusteringResult_to_plotly ::
  "ext \<Rightarrow> int list \<Rightarrow> int option list \<Rightarrow> (float \<times> float) list \<Rightarrow> exn + PlotlyScatter" where
  "ClusteringResult_to_plotly X ids ls cs =
     (if length cs = 0 then Inr (PlotlyScatter_init [] [] [] [])
      else
        (let points_with_cluster = filter (\<lambda>(cluster_id, c, a). cluster_id \<noteq> None) (zip ls (zip cs ids)) in
         if points_with_cluster = [] then Inl ValidationError
         else
           (let labels' = map (\<lambda>(cluster_id, c, a). the cluster_id) points_with_cluster;
                coords' = map (\<lambda>(cluster_id, c, a). c) points_with_cluster;
                article_ids' = map (\<lambda>(cluster_id, c, a). a) points_with_cluster
            in
            if glasbey_dark X = [] then Inl ZeroDivisionError
            else Inr (PlotlyScatter_init (map fst coords') (map snd coords')
                   [(''article_ids'', PInts article_ids'), (''labels'', PInts labels')]
                   [(''size'', PInts (map (\<lambda>i. 10) article_ids')),
                    (''opacity'', PFloats (map (\<lambda>i. 8 / 10) article_ids')),
                    (''color'', PStrs (map (\<lambda>cluster.
                        glasbey_dark X ! nat (cluster mod int (length (glasbey_dark X)))) labels'))]))))"

definition ClusteringResult_init ::
  "ext \<Rightarrow> int list \<Rightarrow> int option list \<Rightarrow> (float \<times> float) list \<Rightarrow> int \<Rightarrow>
   ClusteringOverallMetrics \<Rightarrow> ClusteringLabelInfo \<Rightarrow> exn + ClusteringResult" where
  "ClusteringResult_init X ids ls cs n m li =
     (let num_article_ids = length ids; num_labels = length ls; num_coords = length cs in
      if \<not> (num_article_ids = num_labels \<and> num_labels = num_coords) then Inl ValidationError
      else and_then (ClusteringResult_to_plotly X ids ls cs) (\<lambda>plot.
        Inr \<lparr>cr_article_ids = ids, labels = ls, coords = cs, num_clusters = n,
             metrics = m, label_info = li, plotly_data = Some plot\<rparr>))"

section \<open>Serialisation\<close>

text \<open>
  \<open>result.json()\<close> is \<open>json.dumps(result.dict())\<close>: the dictionary lists the fields
  under their declared names, in the order of declaration, a nested model as a dictionary
  of its own and a tuple as a list.
\<close>

definition optional_dict :: "('a \<Rightarrow> json_value) \<Rightarrow> 'a option \<Rightarrow> json_value" where
  "optional_dict f v = (case v of None \<Rightarrow> JNull | Some a \<Rightarrow> f a)"

definition coords_dict :: "(float \<times> float) list \<Rightarrow> json_value" where
  "coords_dict cs = JArr (map (\<lambda>c. JArr [JFloat (fst c), JFloat (snd c)]) cs)"

fun plotly_value_dict :: "plotly_value \<Rightarrow> json_value" where
  "plotly_value_dict (PInts ns) = JArr (map JInt ns)"
| "plotly_value_dict (PFloats fs) = JArr (map JFloat fs)"
| "plotly_value_dict (PStrs ss) = JArr (map JStr ss)"

definition PlotlyScatter_dict :: "PlotlyScatter \<Rightarrow> json_value" where
  "PlotlyScatter_dict s = JObj
     [(''x'', JArr (map JFloat (x s))),
      (''y'', JArr (map JFloat (y s))),
      (''mode'', JStr (mode s)),
      (''extra'', JObj (map (\<lambda>kv. (fst kv, plotly_value_dict (snd kv))) (extra s))),
      (''marker'', JObj (map (\<lambda>kv. (fst kv, plotly_value_dict (snd kv))) (marker s)))]"

definition FilterSetResult_dict :: "FilterSetResult \<Rightarrow> json_value" where
  "FilterSetResult_dict r = JObj [(''article_ids'', JArr (map JInt (article_ids r)))]"

definition ClusteringOverallMetrics_dict :: "ClusteringOverallMetrics \<Rightarrow> json_value" where
  "ClusteringOverallMetrics_dict m = JObj
     [(''dbcv'', optional_dict JFloat (dbcv m)),
      (''silhoutte_coefficient'', optional_dict JFloat (silhoutte_coefficient m)),
      (''davies_bouldin_index'', optional_dict JFloat (davies_bouldin_index m)),
      (''dunn_index'', optional_dict JFloat (dunn_index m))]"

definition ClusteringLabelInfo_dict :: "ClusteringLabelInfo \<Rightarrow> json_value" where
  "ClusteringLabelInfo_dict li = JObj
     [(''n_per_cluster'', JArr (map JInt (n_per_cluster li))),
      (''cluster_validity_indices'', JArr (map JFloat (cluster_validity_indices li))),
      (''cluster_center_coords'', coords_dict (cluster_center_coords li)),
      (''plotly_data'', optional_dict PlotlyScatter_dict (label_plotly_data li))]"

definition ClusteringResult_dict :: "ClusteringResult \<Rightarrow> json_value" where
  "ClusteringResult_dict r = JObj
     [(''article_ids'', JArr (map JInt (cr_article_ids r))),
      (''labels'', JArr (map (optional_dict JInt) (labels r))),
      (''coords'', coords_dict (coords r)),
      (''num_clusters'', JInt (num_clusters r)),
      (''metrics'', ClusteringOverallMetrics_dict (metrics r)),
      (''label_info'', ClusteringLabelInfo_dict (label_info r)),
      (''plotly_data'', optional_dict PlotlyScatter_dict (plotly_data r))]"

definition ArticleGroup_dict :: "ArticleGroup \<Rightarrow> json_value" where
  "ArticleGroup_dict g = JObj
     [(''id'', JInt (id' g)),
      (''num_articles'', JInt (num_articles g)),
      (''article_ids'', JArr (map JInt (ag_article_ids g))),
      (''top_terms'', JArr (map JStr (top_terms g)))]"

definition ArticleGroupResult_dict :: "ArticleGroupResult \<Rightarrow> json_value" where
  "ArticleGroupResult_dict r = JObj [(''result'', JArr (map ArticleGroup_dict (result r)))]"

fun BaseModel_dict :: "BaseModel \<Rightarrow> json_value" where
  "BaseModel_dict (RFilterSet r) = FilterSetResult_dict r"
| "BaseModel_dict (RClustering r) = ClusteringResult_dict r"
| "BaseModel_dict (RArticleGroup r) = ArticleGroupResult_dict r"

definition json :: "ext \<Rightarrow> BaseModel \<Rightarrow> bytes" where
  "json X r = json_dumps X (BaseModel_dict r)"

text \<open>
  pydantic's validators of the declared types. A value of the declared JSON type is
  taken as it is; any other value goes through the conversion pydantic falls back on. A
  list field takes a list only, a \<open>Tuple[float, float]\<close> a list of two, and \<open>None\<close> is
  what an \<open>Optional\<close> field makes of \<open>null\<close> or of a missing key. A failure inside a
  field is reported as a validation error of the model.
\<close>

definition int_validator :: "ext \<Rightarrow> json_value \<Rightarrow> exn + int" where
  "int_validator X v =
     (case v of
        JInt i \<Rightarrow> Inr i
      | _ \<Rightarrow> (case lax_int X v of None \<Rightarrow> Inl ValidationError | Some i \<Rightarrow> Inr i))"

definition float_validator :: "ext \<Rightarrow> json_value \<Rightarrow> exn + float" where
  "float_validator X v =
     (case v of
        JFloat f \<Rightarrow> Inr f
      | _ \<Rightarrow> (case lax_float X v of None \<Rightarrow> Inl ValidationError | Some f \<Rightarrow> Inr f))"

definition str_validator :: "ext \<Rightarrow> json_value \<Rightarrow> exn + string" where
  "str_validator X v =
     (case v of
        JStr s \<Rightarrow> Inr s
      | _ \<Rightarrow> (case lax_str X v of None \<Rightarrow> Inl ValidationError | Some s \<Rightarrow> Inr s))"

definition optional_validator :: "(json_value \<Rightarrow> exn + 'a) \<Rightarrow> json_value \<Rightarrow> exn + 'a option" where
  "optional_validator f v = (case v of JNull \<Rightarrow> Inr None | _ \<Rightarrow> map_sum id Some (f v))"

definition list_validator :: "(json_value \<Rightarrow> exn + 'a) \<Rightarrow> json_value \<Rightarrow> exn + 'a list" where
  "list_validator f v = (case v of JArr vs \<Rightarrow> collect f vs | _ \<Rightarrow> Inl ValidationError)"

definition pair_validator :: "ext \<Rightarrow> json_value \<Rightarrow> exn + float \<times> float" where
  "pair_validator X v =
     (case v of
        JArr [a, b] \<Rightarrow>
          and_then (float_validator X a) (\<lambda>a'.
          and_then (float_validator X b) (\<lambda>b'. Inr (a', b')))
      | _ \<Rightarrow> Inl ValidationError)"

definition dict_validator :: "ext \<Rightarrow> json_value \<Rightarrow> exn + (string \<times> json_value) list" where
  "dict_validator X v =
     (case v of
        JObj d \<Rightarrow> Inr d
      | _ \<Rightarrow> lax_dict X v)"

definition required_field ::
  "(string \<times> json_value) list \<Rightarrow> string \<Rightarrow> (json_value \<Rightarrow> exn + 'a) \<Rightarrow> exn + 'a" where
  "required_field d name f = (case map_of d name of None \<Rightarrow> Inl ValidationError | Some v \<Rightarrow> f v)"

definition optional_field ::
  "(string \<times> json_value) list \<Rightarrow> string \<Rightarrow> (json_value \<Rightarrow> exn + 'a) \<Rightarrow> exn + 'a option" where
  "optional_field d name f = (case map_of d name of None \<Rightarrow> Inr None | Some v \<Rightarrow> optional_validator f v)"

definition nested_model ::
  "ext \<Rightarrow> ((string \<times> json_value) list \<Rightarrow> exn + 'a) \<Rightarrow> json_value \<Rightarrow> exn + 'a" where
  "nested_model X parse v =
     (case and_then (dict_validator X v) parse of Inl e \<Rightarrow> Inl ValidationError | Inr m \<Rightarrow> Inr m)"

text \<open>
  \<open>cls(**obj)\<close> for each result class: every declared field is looked up by name, a key
  that names no field is ignored, and the validators of the class run as they do when the
  creation function builds the model. Both \<open>to_plotly\<close> validators are declared
  \<open>pre=True, always=True\<close> and do not read the value they are given: the stored
  \<open>plotly_data\<close> is replaced by the one computed from the other fields.
\<close>

definition FilterSetResult_validate :: "ext \<Rightarrow> (string \<times> json_value) list \<Rightarrow> exn + FilterSetResult" where
  "FilterSetResult_validate X d =
     and_then (required_field d ''article_ids'' (list_validator (int_validator X))) (\<lambda>ids.
     Inr \<lparr>article_ids = ids\<rparr>)"

definition ClusteringOverallMetrics_validate ::
  "ext \<Rightarrow> (string \<times> json_value) list \<Rightarrow> exn + ClusteringOverallMetrics" where
  "ClusteringOverallMetrics_validate X d =
     and_then (optional_field d ''dbcv'' (float_validator X)) (\<lambda>a.
     and_then (optional_field d ''silhoutte_coefficient'' (float_validator X)) (\<lambda>b.
     and_then (optional_field d ''davies_bouldin_index'' (float_validator X)) (\<lambda>c.
     and_then (optional_field d ''dunn_index'' (float_validator X)) (\<lambda>e.
     Inr (ClusteringOverallMetrics_init
            [(''dbcv'', a), (''silhoutte_coefficient'', b),
             (''davies_bouldin_index'', c), (''dunn_index'', e)])))))"

definition ClusteringLabelInfo_validate ::
  "ext \<Rightarrow> (string \<times> json_value) list \<Rightarrow> exn + ClusteringLabelInfo" where
  "ClusteringLabelInfo_validate X d =
     and_then (required_field d ''n_per_cluster'' (list_validator (int_validator X))) (\<lambda>npc.
     and_then (required_field d ''cluster_validity_indices'' (list_validator (float_validator X))) (\<lambda>cvi.
     and_then (required_field d ''cluster_center_coords'' (list_validator (pair_validator X))) (\<lambda>ccc.
     ClusteringLabelInfo_init npc cvi ccc)))"

text \<open>
  In \<open>ClusteringResult\<close> an exception of \<open>to_plotly\<close> that pydantic does not catch (the
  modulus by an empty palette) leaves the constructor whatever the later fields hold, so
  the three lists and \<open>to_plotly\<close> come first.
\<close>

definition ClusteringResult_validate ::
  "ext \<Rightarrow> (string \<times> json_value) list \<Rightarrow> exn + ClusteringResult" where
  "ClusteringResult_validate X d =
     and_then (required_field d ''article_ids'' (list_validator (int_validator X))) (\<lambda>ids.
     and_then (required_field d ''labels'' (list_validator (optional_validator (int_validator X)))) (\<lambda>ls.
     and_then (required_field d ''coords'' (list_validator (pair_validator X))) (\<lambda>cs.
     if \<not> (length ids = length ls \<and> length ls = length cs) then Inl ValidationError
     else
       and_then (ClusteringResult_to_plotly X ids ls cs) (\<lambda>plot.
       and_then (required_field d ''num_clusters'' (int_validator X)) (\<lambda>n.
       and_then (required_field d ''metrics'' (nested_model X (ClusteringOverallMetrics_validate X))) (\<lambda>m.
       and_then (required_field d ''label_info'' (nested_model X (ClusteringLabelInfo_validate X))) (\<lambda>li.
       Inr \<lparr>cr_article_ids = ids, labels = ls, coords = cs, num_clusters = n,
            metrics = m, label_info = li, plotly_data = Some plot\<rparr>)))))))"

definition ArticleGroup_validate :: "ext \<Rightarrow> (string \<times> json_value) list \<Rightarrow> exn + ArticleGroup" where
  "ArticleGroup_validate X d =
     and_then (required_field d ''id'' (int_validator X)) (\<lambda>i.
     and_then (required_field d ''num_articles'' (int_validator X)) (\<lambda>n.
     and_then (required_field d ''article_ids'' (list_validator (int_validator X))) (\<lambda>ids.
     and_then (required_field d ''top_terms'' (list_validator (str_validator X))) (\<lambda>terms.
     Inr \<lparr>id' = i, num_articles = n, ag_article_ids = ids, top_terms = terms\<rparr>))))"

definition ArticleGroupResult_validate ::
  "ext \<Rightarrow> (string \<times> json_value) list \<Rightarrow> exn + ArticleGroupResult" where
  "ArticleGroupResult_validate X d =
     and_then (required_field d ''result'' (list_validator (nested_model X (ArticleGroup_validate X)))) (\<lambda>groups.
     Inr \<lparr>result = groups\<rparr>)"

text \<open>
  \<open>result_cls.parse_raw(val)\<close> is \<open>result_cls.parse_obj(json.loads(val))\<close>; bytes
  that do not decode are a validation error. The class decides which model is built.
\<close>

fun parse_obj :: "ext \<Rightarrow> result_cls \<Rightarrow> json_value \<Rightarrow> exn + BaseModel" where
  "parse_obj X FilterSetResult_cls obj =
     map_sum id RFilterSet (and_then (dict_validator X obj) (FilterSetResult_validate X))"
| "parse_obj X ClusteringResult_cls obj =
     map_sum id RClustering (and_then (dict_validator X obj) (ClusteringResult_validate X))"
| "parse_obj X ArticleGroupResult_cls obj =
     map_sum id RArticleGroup (and_then (dict_validator X obj) (ArticleGroupResult_validate X))"

definition parse_raw :: "ext \<Rightarrow> result_cls \<Rightarrow> bytes \<Rightarrow> exn + BaseModel" where
  "parse_raw X result_cls val =
     (case json_loads X val of
        None \<Rightarrow> Inl ValidationError
      | Some obj \<Rightarrow> parse_obj X result_cls obj)"

section \<open>Hashing of parameter objects\<close>

text \<open>
  \<open>HashableBaseModel.__hash__\<close>: the hash of the tuple made of the class name and the
  values of \<open>__dict__\<close>, in field order. Hashing a tuple hashes its elements, so a nested
  parameter object contributes its own \<open>__hash__\<close>; an enum member that is also a \<open>str\<close>
  hashes as its string value.
\<close>

definition hash_optional :: "ext \<Rightarrow> ('a \<Rightarrow> int) \<Rightarrow> 'a option \<Rightarrow> int" where
  "hash_optional X h v = (case v of None \<Rightarrow> hash_none X | Some a \<Rightarrow> h a)"

definition hash_int_tuple :: "ext \<Rightarrow> int list \<Rightarrow> int" where
  "hash_int_tuple X t = hash_tuple X (map (hash_int X) t)"

definition hash_FilterSetParams :: "ext \<Rightarrow> FilterSetParams \<Rightarrow> int" where
  "hash_FilterSetParams X p = hash_tuple X
     [hash_str X ''FilterSetParams'',
      hash_optional X (hash_str X) (full_text_search_query p),
      hash_optional X (hash_int_tuple X) (temp_article_ids p),
      hash_optional X (hash_int X) (limit p)]"

definition hash_ClusteringParams :: "ext \<Rightarrow> ClusteringParams \<Rightarrow> int" where
  "hash_ClusteringParams X p = hash_tuple X
     [hash_str X ''ClusteringParams'',
      hash_FilterSetParams X (filter_set p),
      hash_int X (umap_seed p),
      hash_int X (umap_n_neighbors p),
      hash_str X (umap_metric p),
      hash_float X (umap_min_dist p),
      hash_int X (hdbscan_min_cluster_size p),
      hash_int X (hdbscan_min_samples p),
      hash_float X (hdbscan_cluster_selection_epsilon p),
      hash_bool X (hdbscan_do_flat_clustering p),
      hash_float X (hdbscan_cluster_flattening_epsilon p)]"

definition hash_ArticleGroupParams :: "ext \<Rightarrow> ArticleGroupParams \<Rightarrow> int" where
  "hash_ArticleGroupParams X p = hash_tuple X
     [hash_str X ''ArticleGroupParams'',
      hash_ClusteringParams X (clustering p),
      hash_int X (num_terms p),
      hash_str X (ArticleGroupSummaryTerms_value (summary_terms p))]"

fun hash :: "ext \<Rightarrow> HashableBaseModel \<Rightarrow> int" where
  "hash X (PFilterSet p) = hash_FilterSetParams X p"
| "hash X (PClustering p) = hash_ClusteringParams X p"
| "hash X (PArticleGroup p) = hash_ArticleGroupParams X p"

text \<open>\<open>str\<close> of an integer: its decimal digits, with a minus sign when negative.\<close>

fun digits :: "nat \<Rightarrow> string" where
  "digits n = (if n < 10 then [char_of (48 + n)] else digits (n div 10) @ [char_of (48 + n mod 10)])"

definition str :: "int \<Rightarrow> string" where
  "str i = (if i < 0 then CHR ''-'' # digits (nat (- i)) else digits (nat i))"

section \<open>Equality of parameter objects and what the hash is taken of\<close>

text \<open>
  \<open>p1 == p2\<close> on two pydantic models compares \<open>p1.dict()\<close> with \<open>p2.dict()\<close>: the
  dictionaries of the field values under the field names, a nested parameter object as
  its own dictionary; the class is not part of the comparison.
\<close>

definition FilterSetParams_dict :: "FilterSetParams \<Rightarrow> json_value" where
  "FilterSetParams_dict p = JObj
     [(''full_text_search_query'', optional_dict JStr (full_text_search_query p)),
      (''temp_article_ids'', optional_dict (\<lambda>t. JArr (map JInt t)) (temp_article_ids p)),
      (''limit'', optional_dict JInt (limit p))]"

definition ClusteringParams_dict :: "ClusteringParams \<Rightarrow> json_value" where
  "ClusteringParams_dict p = JObj
     [(''filter_set'', FilterSetParams_dict (filter_set p)),
      (''umap_seed'', JInt (umap_seed p)),
      (''umap_n_neighbors'', JInt (umap_n_neighbors p)),
      (''umap_metric'', JStr (umap_metric p)),
      (''umap_min_dist'', JFloat (umap_min_dist p)),
      (''hdbscan_min_cluster_size'', JInt (hdbscan_min_cluster_size p)),
      (''hdbscan_min_samples'', JInt (hdbscan_min_samples p)),
      (''hdbscan_cluster_selection_epsilon'', JFloat (hdbscan_cluster_selection_epsilon p)),
      (''hdbscan_do_flat_clustering'', JBool (hdbscan_do_flat_clustering p)),
      (''hdbscan_cluster_flattening_epsilon'', JFloat (hdbscan_cluster_flattening_epsilon p))]"

definition ArticleGroupParams_dict :: "ArticleGroupParams \<Rightarrow> json_value" where
  "ArticleGroupParams_dict p = JObj
     [(''clustering'', ClusteringParams_dict (clustering p)),
      (''num_terms'', JInt (num_terms p)),
      (''summary_terms'', JStr (ArticleGroupSummaryTerms_value (summary_terms p)))]"

fun HashableBaseModel_dict :: "HashableBaseModel \<Rightarrow> json_value" where
  "HashableBaseModel_dict (PFilterSet p) = FilterSetParams_dict p"
| "HashableBaseModel_dict (PClustering p) = ClusteringParams_dict p"
| "HashableBaseModel_dict (PArticleGroup p) = ArticleGroupParams_dict p"

definition HashableBaseModel_eq :: "HashableBaseModel \<Rightarrow> HashableBaseModel \<Rightarrow> bool" where
  "HashableBaseModel_eq p1 p2 = (HashableBaseModel_dict p1 = HashableBaseModel_dict p2)"

text \<open>
  The values Python's \<open>hash\<close> meets under a parameter object: \<open>None\<close>, integers,
  strings, floats, booleans, tuples, and instances of the parameter classes, each with
  the name of its class and the values of its fields. The built-in \<open>hash\<close> of a tuple
  combines the hashes of its elements; the \<open>hash\<close> of an instance is the hash of the
  tuple that starts with the name of the class and goes on with the field values.
\<close>

datatype pyval =
    PyNone
  | PyInt int
  | PyStr string
  | PyFloat float
  | PyBool bool
  | PyTuple "pyval list"
  | PyModel string "pyval list"

fun py_hash :: "ext \<Rightarrow> pyval \<Rightarrow> int" where
  "py_hash X PyNone = hash_none X"
| "py_hash X (PyInt i) = hash_int X i"
| "py_hash X (PyStr s) = hash_str X s"
| "py_hash X (PyFloat f) = hash_float X f"
| "py_hash X (PyBool b) = hash_bool X b"
| "py_hash X (PyTuple vs) = hash_tuple X (map (py_hash X) vs)"
| "py_hash X (PyModel name vs) = hash_tuple X (hash_str X name # map (py_hash X) vs)"

text \<open>
  The declared type name of a parameter object with all its field values, a nested
  parameter object standing in its field with its own type name and field values.
\<close>

definition py_optional :: "('a \<Rightarrow> pyval) \<Rightarrow> 'a option \<Rightarrow> pyval" where
  "py_optional f v = (case v of None \<Rightarrow> PyNone | Some a \<Rightarrow> f a)"

definition FilterSetParams_fields :: "FilterSetParams \<Rightarrow> pyval" where
  "FilterSetParams_fields p = PyModel ''FilterSetParams''
     [py_optional PyStr (full_text_search_query p),
      py_optional (\<lambda>t. PyTuple (map PyInt t)) (temp_article_ids p),
      py_optional PyInt (limit p)]"

definition ClusteringParams_fields :: "ClusteringParams \<Rightarrow> pyval" where
  "ClusteringParams_fields p = PyModel ''ClusteringParams''
     [FilterSetParams_fields (filter_set p),
      PyInt (umap_seed p),
      PyInt (umap_n_neighbors p),
      PyStr (umap_metric p),
      PyFloat (umap_min_dist p),
      PyInt (hdbscan_min_cluster_size p),
      PyInt (hdbscan_min_samples p),
      PyFloat (hdbscan_cluster_selection_epsilon p),
      PyBool (hdbscan_do_flat_clustering p),
      PyFloat (hdbscan_cluster_flattening_epsilon p)]"

definition ArticleGroupParams_fields :: "ArticleGroupParams \<Rightarrow> pyval" where
  "ArticleGroupParams_fields p = PyModel ''ArticleGroupParams''
     [ClusteringParams_fields (clustering p),
      PyInt (num_terms p),
      PyStr (ArticleGroupSummaryTerms_value (summary_terms p))]"

fun type_name_and_fields :: "HashableBaseModel \<Rightarrow> pyval" where
  "type_name_and_fields (PFilterSet p) = FilterSetParams_fields p"
| "type_name_and_fields (PClustering p) = ClusteringParams_fields p"
| "type_name_and_fields (PArticleGroup p) = ArticleGroupParams_fields p"

section \<open>Resource registry and lookup\<close>

definition RESOURCE_HASH_KEYS :: "resource_cls \<Rightarrow> string option" where
  "RESOURCE_HASH_KEYS = map_of
     [(FilterSetParams_cls, ''filter_sets''),
      (ClusteringParams_cls, ''clusterings''),
      (ArticleGroupParams_cls, ''article_groups'')]"

definition RESOURCE_RESULT_CLASSES :: "resource_cls \<Rightarrow> result_cls option" where
  "RESOURCE_RESULT_CLASSES = map_of
     [(FilterSetParams_cls, FilterSetResult_cls),
      (ClusteringParams_cls, ClusteringResult_cls),
      (ArticleGroupParams_cls, ArticleGroupResult_cls)]"

definition get_resource_hash_key :: "resource_cls \<Rightarrow> exn + string" where
  "get_resource_hash_key resource_cls =
     (case RESOURCE_HASH_KEYS resource_cls of None \<Rightarrow> Inl TypeError | Some hash_key \<Rightarrow> Inr hash_key)"

definition get_resource_result_cls :: "resource_cls \<Rightarrow> exn + result_cls" where
  "get_resource_result_cls resource_cls =
     (case RESOURCE_RESULT_CLASSES resource_cls of None \<Rightarrow> Inl TypeError | Some c \<Rightarrow> Inr c)"

definition IN_PROGRESS_VAL :: bytes where
  "IN_PROGRESS_VAL = []"

definition is_in_progress :: "bytes option \<Rightarrow> bool" where
  "is_in_progress resource_val = (resource_val \<noteq> None \<and> length (the resource_val) = 0)"

definition find_resource_hash :: "ext \<Rightarrow> kv \<Rightarrow> resource_cls \<Rightarrow> string \<Rightarrow> exn + BaseModel" where
  "find_resource_hash X kv resource_cls params_hash =
     (case get_resource_hash_key resource_cls of
        Inl e \<Rightarrow> Inl e
      | Inr hash_key \<Rightarrow>
          (case get_resource_result_cls resource_cls of
             Inl e \<Rightarrow> Inl e
           | Inr result_cls \<Rightarrow>
               (let val = hget kv hash_key params_hash in
                if val = None then Inl ResourceDoesNotExist
                else if is_in_progress val then Inl ResourceCreationInProgress
                else parse_raw X result_cls (the val))))"

definition find_resource :: "ext \<Rightarrow> kv \<Rightarrow> HashableBaseModel \<Rightarrow> exn + BaseModel" where
  "find_resource X kv params =
     (let resource_cls = class_of params; params_hash = str (hash X params) in
      case find_resource_hash X kv resource_cls params_hash of
        Inl e \<Rightarrow>
          (if e = ResourceDoesNotExist then Inl ResourceDoesNotExist
           else if e = ResourceCreationInProgress then Inl ResourceCreationInProgress
           else Inl e)
      | Inr r \<Rightarrow> Inr r)"

section \<open>Reservation\<close>

text \<open>
  \<open>reserve_resource\<close> is a context manager. The scope of the \<open>with\<close> statement is the
  argument \<open>body\<close>: it receives the store as the reservation left it and gives back the
  store as it leaves it, with the exception it raised or the value it produced; \<open>None\<close>
  is a scope that never returns.
\<close>

text \<open>
  \<open>kv.pipeline().hget(...).hsetnx(...).execute()\<close>: Redis runs the commands of the
  pipeline as one transaction, no command of another client coming between them. It is
  one step on the store, which gives the reply of \<open>hget\<close> and the store \<open>hsetnx\<close>
  leaves.
\<close>

definition pipeline_hget_hsetnx :: "kv \<Rightarrow> string \<Rightarrow> string \<Rightarrow> bytes \<Rightarrow> bytes option \<times> kv" where
  "pipeline_hget_hsetnx kv name key val = (hget kv name key, hsetnx kv name key val)"

definition reservation_scope ::
  "kv \<Rightarrow> string \<Rightarrow> string \<Rightarrow> (kv \<Rightarrow> (kv \<times> (exn + 'a)) option) \<Rightarrow> (kv \<times> (exn + 'a)) option" where
  \<comment> \<open>the \<open>try: yield / except (Exception, Shutdown): hdel; raise\<close> block\<close>
  "reservation_scope kv hash_key params_hash body =
     (case body kv of
        None \<Rightarrow> None
      | Some (kv', Inl e) \<Rightarrow>
          if isinstance_Exception e \<or> e = Shutdown
          then Some (hdel kv' hash_key params_hash, Inl e)
          else Some (kv', Inl e)
      | Some (kv', Inr a) \<Rightarrow> Some (kv', Inr a))"

definition reserve_resource ::
  "ext \<Rightarrow> kv \<Rightarrow> HashableBaseModel \<Rightarrow> bool \<Rightarrow> (kv \<Rightarrow> (kv \<times> (exn + 'a)) option) \<Rightarrow> (kv \<times> (exn + 'a)) option" where
  "reserve_resource X kv params force body =
     (case get_resource_hash_key (class_of params) of
        Inl e \<Rightarrow> Some (kv, Inl e)
      | Inr hash_key \<Rightarrow>
          (let params_hash = str (hash X params);
               (prev_val, kv1) = pipeline_hget_hsetnx kv hash_key params_hash IN_PROGRESS_VAL
           in
           if prev_val = None \<or> force then
             (let kv2 = (if force then hset kv1 hash_key params_hash IN_PROGRESS_VAL else kv1)
              in reservation_scope kv2 hash_key params_hash body)
           else if is_in_progress prev_val then Some (kv1, Inl ResourceCreationInProgress)
           else Some (kv1, Inl ResourceExists)))"

section \<open>Waiting for a dependency\<close>

text \<open>
  Both dependent creation functions open with the same loop: \<open>while True\<close>, return what
  \<open>find_resource\<close> finds, start over (after a second of sleep) when it raises
  \<open>ResourceCreationInProgress\<close>, and let any other exception through. The loop has no
  bound; the store it reads is the one the caller holds, which this process does not
  change while it waits.
\<close>

partial_function (option) poll_resource ::
  "ext \<Rightarrow> kv \<Rightarrow> HashableBaseModel \<Rightarrow> (exn + BaseModel) option" where
  "poll_resource X kv params =
     (if find_resource X kv params = Inl ResourceCreationInProgress
      then poll_resource X kv params
      else Some (find_resource X kv params))"

section \<open>Filter sets\<close>

text \<open>
  \<open>db_filter_articles\<close> holds the rows of the filtered query; \<open>.limit(n)\<close> keeps the
  first \<open>n\<close> of them. The limit reaches PostgreSQL as a \<open>bigint\<close>: the database
  rejects a negative limit and one that does not fit in 64 bits.
\<close>

definition priv_make_filter_set :: "ext \<Rightarrow> kv \<Rightarrow> FilterSetParams \<Rightarrow> exn + FilterSetResult" where
  "priv_make_filter_set X kv params =
     (let rows = db_filter_articles X (full_text_search_query params) in
      case limit params of
        None \<Rightarrow> Inr \<lparr>article_ids = rows\<rparr>
      | Some n \<Rightarrow>
          if n < 0 \<or> 2 ^ 63 \<le> n then Inl DataError
          else Inr \<lparr>article_ids = take (nat n) rows\<rparr>)"

section \<open>Clustering\<close>

definition priv_make_blank_clustering_result :: "ext \<Rightarrow> exn + ClusteringResult" where
  "priv_make_blank_clustering_result X =
     and_then (ClusteringLabelInfo_init [] [] []) (\<lambda>li.
       ClusteringResult_init X [] [] [] 0
         (ClusteringOverallMetrics_init
            [(''dbcv'', None), (''silhouette_coefficient'', None),
             (''davies_bouldin_index'', None), (''dunn_index'', None)])
         li)"

text \<open>Lines 246 to 254: the temporary PubMed articles of the filter set.\<close>

definition with_temp_article_ids :: "FilterSetParams \<Rightarrow> int list \<Rightarrow> int list" where
  "with_temp_article_ids fs filtered_article_ids =
     (case temp_article_ids fs of
        None \<Rightarrow> filtered_article_ids
      | Some t \<Rightarrow>
          if t = [] then filtered_article_ids
          else if full_text_search_query fs = None then t
          else filtered_article_ids @ t)"

text \<open>
  Lines 281 to 301: fit, then either the cut of the single linkage tree or \<open>labels_\<close>; a
  \<open>ValueError\<close> of either becomes the \<open>ValueError\<close> with the user-facing message.
\<close>

definition hdbscan_raw_labels :: "ext \<Rightarrow> ClusteringParams \<Rightarrow> (float \<times> float) list \<Rightarrow> exn + int list" where
  "hdbscan_raw_labels X params umap_data =
     (case
        and_then
          (HDBSCAN_fit X (hdbscan_min_cluster_size params) (hdbscan_min_samples params)
             (hdbscan_cluster_selection_epsilon params) umap_data)
          (\<lambda>c. if hdbscan_do_flat_clustering params
               then single_linkage_tree_get_clusters c
                      (hdbscan_cluster_flattening_epsilon params) (hdbscan_min_cluster_size params)
               else Inr (labels' c))
      of
        Inl e \<Rightarrow> if isinstance_ValueError e then Inl ValueError else Inl e
      | Inr raw_labels \<Rightarrow> Inr raw_labels)"

text \<open>Lines 312 to 326: the density-based validity, skipped for small minimum sizes.\<close>

definition cluster_validity ::
  "ext \<Rightarrow> ClusteringParams \<Rightarrow> (float \<times> float) list \<Rightarrow> int list \<Rightarrow> exn + float option \<times> float list" where
  "cluster_validity X params umap_data raw_labels =
     (if hdbscan_min_cluster_size params \<le> 2 \<or> hdbscan_min_samples params \<le> 2 then Inr (None, [])
      else and_then (validity_index X umap_data raw_labels) (\<lambda>(d, cvi).
        let outliers = (- 1 \<in> set raw_labels) in
        Inr (Some d, if outliers then 0 # cvi else cvi)))"

text \<open>
  \<open>np.unique\<close> gives the distinct labels in ascending order, with their counts; the data
  frame groups the rows by label (in ascending order) and takes the mean of each column.
  \<open>np.hstack\<close> wants as many labels as points.
\<close>

definition np_unique :: "int list \<Rightarrow> int list" where
  "np_unique raw_labels = sort (remdups raw_labels)"

definition mean :: "float list \<Rightarrow> float" where
  "mean vs = sum_list vs / of_nat (length vs)"

definition group_means :: "(float \<times> float) list \<Rightarrow> int list \<Rightarrow> (float \<times> float) list" where
  "group_means umap_data raw_labels =
     map (\<lambda>l. let pts = map fst (filter (\<lambda>(c, l'). l' = l) (zip umap_data raw_labels))
              in (mean (map fst pts), mean (map snd pts)))
         (np_unique raw_labels)"

text \<open>
  Lines 303 to 359 of \<open>_make_clustering\<close>: from the raw labels to the result.
  \<open>raw_labels.max()\<close> raises on an empty array.
\<close>

definition clustering_result_of_labels ::
  "ext \<Rightarrow> ClusteringParams \<Rightarrow> int list \<Rightarrow> (float \<times> float) list \<Rightarrow> int list \<Rightarrow> exn + ClusteringResult" where
  "clustering_result_of_labels X params ids umap_data raw_labels =
     (if raw_labels = [] then Inl ValueError
      else
        (let num_clusters = Max (set raw_labels) + 1;
             labels = map (\<lambda>cluster_id. if cluster_id = - 1 then None else Some cluster_id) raw_labels
         in
         and_then (cluster_validity X params umap_data raw_labels) (\<lambda>(dbcv, cluster_validity_indices).
         and_then (silhouette_score X umap_data raw_labels) (\<lambda>silhouette.
         and_then (davies_bouldin_score X umap_data raw_labels) (\<lambda>davies_bouldin.
         and_then (dunn_index_score X umap_data raw_labels) (\<lambda>dunn.
         let n_per_cluster = map (\<lambda>l. int (count_list raw_labels l)) (np_unique raw_labels) in
         if length umap_data \<noteq> length raw_labels then Inl ValueError
         else
           (let cluster_center_coords = group_means umap_data raw_labels;
                metrics = ClusteringOverallMetrics_init
                  [(''dbcv'', dbcv), (''silhouette_coefficient'', Some silhouette),
                   (''davies_bouldin_index'', Some davies_bouldin), (''dunn_index'', Some dunn)]
            in
            and_then (ClusteringLabelInfo_init n_per_cluster cluster_validity_indices
                        cluster_center_coords) (\<lambda>label_info.
            ClusteringResult_init X ids labels umap_data num_clusters
              metrics label_info))))))))"

text \<open>
  Lines 246 to 301 of \<open>_make_clustering\<close>, after the filter set has been found. Unpacking
  \<open>zip(*filtered_article_data)\<close> into two names raises \<open>ValueError\<close> when the query
  returned no row.
\<close>

definition clustering_of_articles :: "ext \<Rightarrow> ClusteringParams \<Rightarrow> int list \<Rightarrow> exn + ClusteringResult" where
  "clustering_of_articles X params found_article_ids =
     (let filtered_article_ids = with_temp_article_ids (filter_set params) found_article_ids in
      if length filtered_article_ids = 0 then priv_make_blank_clustering_result X
      else
        (let filtered_article_data = db_article_embeddings X filtered_article_ids in
         if filtered_article_data = [] then Inl ValueError
         else
           (let article_ids = map fst filtered_article_data;
                article_embeddings = map snd filtered_article_data
            in
            and_then (UMAP_fit_transform X (umap_n_neighbors params) (umap_metric params)
                        (umap_min_dist params) (umap_seed params) article_embeddings) (\<lambda>umap_data.
            and_then (hdbscan_raw_labels X params umap_data) (\<lambda>raw_labels.
            clustering_result_of_labels X params article_ids umap_data raw_labels)))))"

definition priv_make_clustering :: "ext \<Rightarrow> kv \<Rightarrow> ClusteringParams \<Rightarrow> (exn + ClusteringResult) option" where
  "priv_make_clustering X kv params =
     (case poll_resource X kv (PFilterSet (filter_set params)) of
        None \<Rightarrow> None
      | Some (Inl e) \<Rightarrow> Some (Inl e)
      | Some (Inr (RFilterSet r)) \<Rightarrow> Some (clustering_of_articles X params (article_ids r))
      | Some (Inr (RClustering r)) \<Rightarrow> Some (clustering_of_articles X params (cr_article_ids r))
      | Some (Inr (RArticleGroup r)) \<Rightarrow> Some (Inl AttributeError))"

section \<open>Article groups\<close>

definition priv_make_blank_article_group_result :: ArticleGroupResult where
  "priv_make_blank_article_group_result =
     \<lparr>result = [\<lparr>id' = 0, num_articles = 0, ag_article_ids = [], top_terms = []\<rparr>]\<rparr>"

text \<open>
  The keys of a \<open>Counter\<close> and the groups of \<open>groupby(sort=False)\<close> come in the order of
  first occurrence.
\<close>

definition unique_first :: "'a list \<Rightarrow> 'a list" where
  "unique_first xs = rev (remdups (rev xs))"

text \<open>
  \<open>article_cluster_df.join(...)\<close>: a left join on the index. Each article of the
  clustering keeps its row; the columns of the right frame are missing (\<open>None\<close>) for an
  article the query returned no row for.
\<close>

definition article_df ::
  "int list \<Rightarrow> int option list \<Rightarrow> (int \<times> 'd) list \<Rightarrow> (int \<times> int option \<times> 'd option) list" where
  "article_df ids ls right =
     concat (map (\<lambda>(i, l).
       case filter (\<lambda>r. fst r = i) right of
         [] \<Rightarrow> [(i, l, None)]
       | ms \<Rightarrow> map (\<lambda>r. (i, l, Some (snd r))) ms) (zip ids ls))"

text \<open>
  Lines 580 to 586: \<open>for i, term in enumerate(sorted(...))\<close> appends the term and then
  breaks when \<open>i >= num_terms - 1\<close>.
\<close>

fun top_terms_loop :: "int \<Rightarrow> nat \<Rightarrow> string list \<Rightarrow> string list \<Rightarrow> string list" where
  "top_terms_loop n i [] acc = acc"
| "top_terms_loop n i (term # rest) acc =
     (if int i \<ge> n - 1 then acc @ [term] else top_terms_loop n (Suc i) rest (acc @ [term]))"

text \<open>
  Lines 551 to 598, the body of the loop over the groups. A row whose joined columns are
  missing makes \<open>chain.from_iterable\<close> raise \<open>TypeError\<close>. The first component of a row's
  data is the article's embedding, the second its summary terms.
\<close>

definition summarize_cluster ::
  "ext \<Rightarrow> int \<Rightarrow> int \<Rightarrow> (int \<times> int option \<times> (float list \<times> string list) option) list \<Rightarrow> exn + ArticleGroup" where
  "summarize_cluster X n cluster cluster_articles =
     (if \<exists>row \<in> set cluster_articles. snd (snd row) = None then Inl TypeError
      else
        (let all_terms = concat (map (\<lambda>row. snd (the (snd (snd row)))) cluster_articles);
             summary_term_counts = (\<lambda>c. count_list all_terms c);
             candidates = filter (\<lambda>c. summary_term_counts c > 1) (unique_first all_terms)
         in
         if candidates \<noteq> [] then
           (let candidate_embeddings = zip candidates (embed X candidates) in
            and_then (np_average X (map (\<lambda>row. fst (the (snd (snd row)))) cluster_articles))
              (\<lambda>cluster_centroid_embedding.
                 let summary_term_distances =
                       map (\<lambda>(term, embedding). (term, cosine_distance X embedding cluster_centroid_embedding))
                         candidate_embeddings
                 in Inr \<lparr>id' = cluster,
                         num_articles = int (length cluster_articles),
                         ag_article_ids = map fst cluster_articles,
                         top_terms = top_terms_loop n 0 (map fst (sort_key snd summary_term_distances)) []\<rparr>))
         else Inr \<lparr>id' = cluster,
                   num_articles = int (length cluster_articles),
                   ag_article_ids = map fst cluster_articles,
                   top_terms = []\<rparr>))"

text \<open>
  Lines 411 to 601 of \<open>_make_article_groups\<close>, after the clustering has been found. The
  data frame wants one label per article; \<open>groupby\<close> drops the rows without a label.
\<close>

definition group_articles :: "ext \<Rightarrow> ArticleGroupParams \<Rightarrow> ClusteringResult \<Rightarrow> exn + ArticleGroupResult" where
  "group_articles X params clustering_result =
     (let filtered_article_ids = cr_article_ids clustering_result in
      if length filtered_article_ids = 0 then Inr priv_make_blank_article_group_result
      else if length (labels clustering_result) \<noteq> length filtered_article_ids then Inl ValueError
      else
        (let rows = db_article_data X filtered_article_ids in
         if rows = [] then Inl ValueError
         else
           (let right = map (\<lambda>(i, text, embedding, mesh_term_array).
                          (i, (embedding,
                               case summary_terms params of
                                 MESH_TERMS \<Rightarrow> mesh_term_array
                               | NAMED_ENTITIES \<Rightarrow> named_entities X text))) rows;
                df = article_df filtered_article_ids (labels clustering_result) right;
                clusters = unique_first (map the (filter (\<lambda>l. l \<noteq> None) (map (\<lambda>row. fst (snd row)) df)))
            in
            and_then
              (collect (\<lambda>cluster. summarize_cluster X (num_terms params) cluster
                          (filter (\<lambda>row. fst (snd row) = Some cluster) df)) clusters)
              (\<lambda>groups. Inr \<lparr>result = groups\<rparr>))))"

definition priv_make_article_groups :: "ext \<Rightarrow> kv \<Rightarrow> ArticleGroupParams \<Rightarrow> (exn + ArticleGroupResult) option" where
  "priv_make_article_groups X kv params =
     (case poll_resource X kv (PClustering (clustering params)) of
        None \<Rightarrow> None
      | Some (Inl e) \<Rightarrow> Some (Inl e)
      | Some (Inr (RClustering r)) \<Rightarrow> Some (group_articles X params r)
      | Some (Inr (RFilterSet r)) \<Rightarrow>
          Some (if length (article_ids r) = 0 then Inr priv_make_blank_article_group_result
                else Inl AttributeError)
      | Some (Inr (RArticleGroup r)) \<Rightarrow> Some (Inl AttributeError))"

section \<open>Creating a resource\<close>

text \<open>
  The table of creation functions. Each function reads the fields of its own parameter
  class; handed another class it fails on the first attribute it reads.
\<close>

definition RESOURCE_CREATION_FUNCS ::
  "resource_cls \<Rightarrow> (ext \<Rightarrow> kv \<Rightarrow> HashableBaseModel \<Rightarrow> (exn + BaseModel) option) option" where
  "RESOURCE_CREATION_FUNCS = map_of
     [(FilterSetParams_cls, \<lambda>X kv params.
         case params of
           PFilterSet p \<Rightarrow> Some (map_sum id RFilterSet (priv_make_filter_set X kv p))
         | _ \<Rightarrow> Some (Inl AttributeError)),
      (ClusteringParams_cls, \<lambda>X kv params.
         case params of
           PClustering p \<Rightarrow> map_option (map_sum id RClustering) (priv_make_clustering X kv p)
         | _ \<Rightarrow> Some (Inl AttributeError)),
      (ArticleGroupParams_cls, \<lambda>X kv params.
         case params of
           PArticleGroup p \<Rightarrow> map_option (map_sum id RArticleGroup) (priv_make_article_groups X kv p)
         | _ \<Rightarrow> Some (Inl AttributeError))]"

definition get_resource_creation_func ::
  "resource_cls \<Rightarrow> exn + (ext \<Rightarrow> kv \<Rightarrow> HashableBaseModel \<Rightarrow> (exn + BaseModel) option)" where
  "get_resource_creation_func resource_cls =
     (case RESOURCE_CREATION_FUNCS resource_cls of None \<Rightarrow> Inl TypeError | Some func \<Rightarrow> Inr func)"

text \<open>The scope that \<open>make_resource\<close> runs inside the reservation (lines 702 to 714).\<close>

definition make_resource_scope :: "ext \<Rightarrow> HashableBaseModel \<Rightarrow> kv \<Rightarrow> (kv \<times> (exn + unit)) option" where
  "make_resource_scope X params kv =
     (let resource_cls = class_of params; param_hash = str (hash X params) in
      case get_resource_hash_key resource_cls of
        Inl e \<Rightarrow> Some (kv, Inl e)
      | Inr hash_key \<Rightarrow>
          (case get_resource_creation_func resource_cls of
             Inl e \<Rightarrow> Some (kv, Inl e)
           | Inr resource_creation_func \<Rightarrow>
               (case resource_creation_func X kv params of
                  None \<Rightarrow> None
                | Some (Inl e) \<Rightarrow> Some (kv, Inl e)
                | Some (Inr r) \<Rightarrow> Some (hset kv hash_key param_hash (json X r), Inr ()))))"

definition make_resource :: "ext \<Rightarrow> kv \<Rightarrow> HashableBaseModel \<Rightarrow> bool \<Rightarrow> (kv \<times> (exn + unit)) option" where
  "make_resource X kv params force =
     (case get_resource_result_cls (class_of params) of
        Inl e \<Rightarrow> Some (kv, Inl e)
      | Inr result_cls \<Rightarrow>
          (case reserve_resource X kv params force (make_resource_scope X params) of
             None \<Rightarrow> None
           | Some (kv', Inl e) \<Rightarrow>
               if e = ResourceCreationInProgress then Some (kv', Inr ())
               else if e = ResourceExists then Some (kv', Inr ())
               else Some (kv', Inl e)
           | Some (kv', Inr u) \<Rightarrow> Some (kv', Inr ())))"

section \<open>A worked example\<close>

text \<open>
  Four articles match the query. The stand-in for HDBSCAN leaves the first point out as
  an outlier and puts the others in cluster 0; every article carries the same MeSH term.
\<close>

definition example_filter_set :: FilterSetParams where
  "example_filter_set =
     \<lparr>full_text_search_query = Some ''asthma'', temp_article_ids = None, limit = None\<rparr>"

definition example_clustering :: ClusteringParams where
  "example_clustering =
     \<lparr>filter_set = example_filter_set, umap_seed = 1, umap_n_neighbors = 30,
      umap_metric = ''cosine'', umap_min_dist = 0, hdbscan_min_cluster_size = 3,
      hdbscan_min_samples = 3, hdbscan_cluster_selection_epsilon = 0,
      hdbscan_do_flat_clustering = False, hdbscan_cluster_flattening_epsilon = 1 / 20\<rparr>"

definition example_article_group :: ArticleGroupParams where
  "example_article_group =
     \<lparr>clustering = example_clustering, num_terms = 0, summary_terms = MESH_TERMS\<rparr>"

definition example_clustering_result :: ClusteringResult where
  "example_clustering_result =
     \<lparr>cr_article_ids = [1, 2, 3, 4],
      labels = [None, Some 0, Some 0, Some 0],
      coords = [(1, 0), (2, 0), (3, 0), (4, 0)],
      num_clusters = 1,
      metrics = \<lparr>dbcv = Some (1 / 2), silhoutte_coefficient = None,
                 davies_bouldin_index = Some 1, dunn_index = Some 2\<rparr>,
      label_info =
        \<lparr>n_per_cluster = [1, 3],
         cluster_validity_indices = [0, 1 / 2],
         cluster_center_coords = [(1, 0), (3, 0)],
         label_plotly_data = Some
           \<lparr>x = [1, 3], y = [0, 0], mode = ''markers'',
            extra = [(''n_per_cluster'', PInts [1, 3]),
                     (''cluster_validity_indices'', PFloats [0, 1 / 2])],
            marker = []\<rparr>\<rparr>,
      plotly_data = Some
        \<lparr>x = [2, 3, 4], y = [0, 0, 0], mode = ''markers'',
         extra = [(''article_ids'', PInts [2, 3, 4]), (''labels'', PInts [0, 0, 0])],
         marker = [(''size'', PInts [10, 10, 10]),
                   (''opacity'', PFloats [4 / 5, 4 / 5, 4 / 5]),
                   (''color'', PStrs [''#d60000'', ''#d60000'', ''#d60000''])]\<rparr>\<rparr>"

text \<open>
  The stand-in for the text layer of JSON knows the two documents of the example: the
  filter set result is stored as \<open>filter set\<close>, the clustering result as
  \<open>clustering\<close>.
\<close>

definition example_json_dumps :: "json_value \<Rightarrow> bytes" where
  "example_json_dumps obj =
     (if obj = FilterSetResult_dict \<lparr>article_ids = [1, 2, 3, 4]\<rparr> then ''filter set''
      else if obj = ClusteringResult_dict example_clustering_result then ''clustering''
      else ''null'')"

definition example_json_loads :: "bytes \<Rightarrow> json_value option" where
  "example_json_loads val =
     (if val = ''filter set'' then Some (FilterSetResult_dict \<lparr>article_ids = [1, 2, 3, 4]\<rparr>)
      else if val = ''clustering'' then Some (ClusteringResult_dict example_clustering_result)
      else None)"

definition example_ext :: ext where
  "example_ext =
     \<lparr>hash_str = (\<lambda>s. sum_list (map of_char s)),
      hash_int = (\<lambda>i. i),
      hash_float = (\<lambda>f. \<lfloor>f\<rfloor>),
      hash_bool = (\<lambda>b. if b then 1 else 0),
      hash_none = 0,
      hash_tuple = (\<lambda>t. foldl (\<lambda>h v. 31 * h + v) 7 t),
      json_dumps = example_json_dumps,
      json_loads = example_json_loads,
      lax_int = (\<lambda>v. None),
      lax_float = (\<lambda>v. None),
      lax_str = (\<lambda>v. None),
      lax_dict = (\<lambda>v. Inl ValidationError),
      db_filter_articles = (\<lambda>q. [1, 2, 3, 4]),
      db_article_embeddings = (\<lambda>ids. map (\<lambda>i. (i, [of_int i])) ids),
      db_article_data = (\<lambda>ids. map (\<lambda>i. (i, ''text'', [of_int i], [''asthma''])) ids),
      UMAP_fit_transform = (\<lambda>n m d s embeddings. Inr (map (\<lambda>e. (sum_list e, 0)) embeddings)),
      HDBSCAN_fit = (\<lambda>mcs ms eps data. Inr
        \<lparr>labels' = (case data of [] \<Rightarrow> [] | p # ps \<Rightarrow> - 1 # map (\<lambda>q. 0) ps),
         single_linkage_tree_get_clusters = (\<lambda>eps' m. Inr (map (\<lambda>q. 0) data))\<rparr>),
      validity_index = (\<lambda>data ls. Inr (1 / 2, [1 / 2])),
      silhouette_score = (\<lambda>data ls. Inr (1 / 2)),
      davies_bouldin_score = (\<lambda>data ls. Inr 1),
      dunn_index_score = (\<lambda>data ls. Inr 2),
      glasbey_dark = [''#d60000'', ''#8c3bff''],
      named_entities = (\<lambda>text. []),
      embed = (\<lambda>candidates. map (\<lambda>c. [1]) candidates),
      np_average = (\<lambda>es. Inr [1]),
      cosine_distance = (\<lambda>a b. 0)\<rparr>"

definition example_kv :: kv where
  "example_kv =
     hset
       (hset Map.empty ''filter_sets'' (str (hash example_ext (PFilterSet example_filter_set)))
          ''filter set'')
       ''clusterings'' (str (hash example_ext (PClustering example_clustering))) ''clustering''"

section \<open>Properties of the registry, the lookup and the reservation\<close>

declare digits.simps [simp del]

lemma find_resource_eq_hash:
  "find_resource X kv params = find_resource_hash X kv (class_of params) (str (hash X params))"
  by (simp add: find_resource_def Let_def split: sum.splits)

lemma find_resource_hash_registered:
  assumes "get_resource_hash_key c = Inr k" and "get_resource_result_cls c = Inr rc"
  shows "find_resource_hash X kv c h =
     (case hget kv k h of None \<Rightarrow> Inl ResourceDoesNotExist
      | Some val \<Rightarrow> if length val = 0 then Inl ResourceCreationInProgress else parse_raw X rc val)"
  using assms by (simp add: find_resource_hash_def is_in_progress_def Let_def split: option.splits)

lemma find_resource_registered:
  assumes "get_resource_hash_key (class_of params) = Inr k"
    and "get_resource_result_cls (class_of params) = Inr rc"
  shows "find_resource X kv params =
     (case hget kv k (str (hash X params)) of None \<Rightarrow> Inl ResourceDoesNotExist
      | Some val \<Rightarrow> if length val = 0 then Inl ResourceCreationInProgress else parse_raw X rc val)"
  using find_resource_hash_registered [OF assms] by (simp add: find_resource_eq_hash)

lemma namespace_registered:
  "get_resource_hash_key (class_of params) =
     Inr (case params of PFilterSet _ \<Rightarrow> ''filter_sets'' | PClustering _ \<Rightarrow> ''clusterings''
          | PArticleGroup _ \<Rightarrow> ''article_groups'')"
  by (cases params) (simp_all add: get_resource_hash_key_def RESOURCE_HASH_KEYS_def)

text \<open>
  C5. For every parameter object, \<open>find_resource\<close> reads the entry stored under the
  decimal string of the object's hash, in the hash that belongs to the class of the
  object (\<open>filter_sets\<close>, \<open>clusterings\<close> or \<open>article_groups\<close>). An absent entry
  raises \<open>ResourceDoesNotExist\<close>; an entry of length zero raises
  \<open>ResourceCreationInProgress\<close>; any other entry is decoded and validated as the result
  class of the object (\<open>FilterSetResult\<close>, \<open>ClusteringResult\<close> or
  \<open>ArticleGroupResult\<close>), and the model built from it is returned; bytes that do not
  decode, and a document the result class rejects, raise the error of the validation.
\<close>

theorem find_resource_outcomes:
  "find_resource X kv params =
     (case hget kv (case params of PFilterSet _ \<Rightarrow> ''filter_sets'' | PClustering _ \<Rightarrow> ''clusterings''
                    | PArticleGroup _ \<Rightarrow> ''article_groups'') (str (hash X params)) of
        None \<Rightarrow> Inl ResourceDoesNotExist
      | Some val \<Rightarrow>
          if length val = 0 then Inl ResourceCreationInProgress
          else
            (case json_loads X val of
               None \<Rightarrow> Inl ValidationError
             | Some obj \<Rightarrow>
                 (case params of
                    PFilterSet _ \<Rightarrow>
                      map_sum id RFilterSet (and_then (dict_validator X obj) (FilterSetResult_validate X))
                  | PClustering _ \<Rightarrow>
                      map_sum id RClustering (and_then (dict_validator X obj) (ClusteringResult_validate X))
                  | PArticleGroup _ \<Rightarrow>
                      map_sum id RArticleGroup (and_then (dict_validator X obj) (ArticleGroupResult_validate X)))))"
proof (cases params)
  case (PFilterSet p)
  have k: "get_resource_hash_key (class_of params) = Inr ''filter_sets''"
    and rc: "get_resource_result_cls (class_of params) = Inr FilterSetResult_cls"
    using PFilterSet
    by (simp_all add: get_resource_hash_key_def RESOURCE_HASH_KEYS_def get_resource_result_cls_def
        RESOURCE_RESULT_CLASSES_def)
  show ?thesis
    unfolding find_resource_registered [OF k rc] using PFilterSet
    by (simp add: parse_raw_def split: option.splits)
next
  case (PClustering p)
  have k: "get_resource_hash_key (class_of params) = Inr ''clusterings''"
    and rc: "get_resource_result_cls (class_of params) = Inr ClusteringResult_cls"
    using PClustering
    by (simp_all add: get_resource_hash_key_def RESOURCE_HASH_KEYS_def get_resource_result_cls_def
        RESOURCE_RESULT_CLASSES_def)
  show ?thesis
    unfolding find_resource_registered [OF k rc] using PClustering
    by (simp add: parse_raw_def split: option.splits)
next
  case (PArticleGroup p)
  have k: "get_resource_hash_key (class_of params) = Inr ''article_groups''"
    and rc: "get_resource_result_cls (class_of params) = Inr ArticleGroupResult_cls"
    using PArticleGroup
    by (simp_all add: get_resource_hash_key_def RESOURCE_HASH_KEYS_def get_resource_result_cls_def
        RESOURCE_RESULT_CLASSES_def)
  show ?thesis
    unfolding find_resource_registered [OF k rc] using PArticleGroup
    by (simp add: parse_raw_def split: option.splits)
qed

lemma hsetnx_absent: "hget kv k h = None \<Longrightarrow> hsetnx kv k h v = hset kv k h v"
  by (simp add: hget_def hsetnx_def hset_def)

lemma hsetnx_present: "hget kv k h = Some w \<Longrightarrow> hsetnx kv k h v = kv"
  by (simp add: hget_def hsetnx_def)

lemma hset_hsetnx: "hset (hsetnx kv k h v) k h v = hset kv k h v"
  by (simp add: hsetnx_def hset_def split: option.splits)

lemma hset_hset: "hset (hset kv k h v) k h v = hset kv k h v"
  by (simp add: hset_def)

lemma hget_hset: "hget (hset kv k h v) k h = Some v"
  by (simp add: hget_def hset_def)

lemma hget_hdel: "hget (hdel kv k h) k h = None"
  by (simp add: hget_def hdel_def)

lemma reserve_resource_registered:
  assumes "get_resource_hash_key (class_of params) = Inr k"
  shows "reserve_resource X kv params force body =
     (if force \<or> hget kv k (str (hash X params)) = None
      then reservation_scope (hset kv k (str (hash X params)) IN_PROGRESS_VAL) k (str (hash X params)) body
      else if hget kv k (str (hash X params)) = Some []
      then Some (kv, Inl ResourceCreationInProgress)
      else Some (kv, Inl ResourceExists))"
proof (cases "hget kv k (str (hash X params))")
  case None
  then show ?thesis using assms
    by (simp add: reserve_resource_def pipeline_hget_hsetnx_def Let_def hsetnx_absent hset_hset)
next
  case (Some w)
  then show ?thesis using assms
    by (auto simp add: reserve_resource_def pipeline_hget_hsetnx_def Let_def hsetnx_present hset_hsetnx
        is_in_progress_def)
qed

text \<open>
  C1. For every parameter object, the pipeline of \<open>reserve_resource\<close> reads the entry
  and sets the sentinel only if the entry is absent, in one step on the store, and
  \<open>reserve_resource\<close> has exactly three outcomes, decided by the value the pipeline
  read. With no prior value, or with \<open>force\<close>, the scope of the caller runs, on the
  store in which the entry is the zero-length sentinel, and what the scope does is what
  the reservation does (an exception it raises propagates, after the entry is deleted
  when the exception is an \<open>Exception\<close> or the worker's \<open>Shutdown\<close>). Otherwise the
  scope does not run and the store is left as it was: a prior value of length zero raises
  \<open>ResourceCreationInProgress\<close>, any other prior value raises \<open>ResourceExists\<close>.
  Since the read and the conditional write are one step, an unforced attempt made on the
  store a granted reservation has planted the sentinel in never enters its scope: it
  raises \<open>ResourceCreationInProgress\<close>.
\<close>

theorem reserve_resource_outcomes:
  "(let hash_key = (case params of PFilterSet _ \<Rightarrow> ''filter_sets'' | PClustering _ \<Rightarrow> ''clusterings''
                    | PArticleGroup _ \<Rightarrow> ''article_groups'');
        params_hash = str (hash X params);
        prev_val = hget kv hash_key params_hash;
        planted = hset kv hash_key params_hash []
    in pipeline_hget_hsetnx kv hash_key params_hash [] =
         (prev_val, if prev_val = None then planted else kv) \<and>
       reserve_resource X kv params force body =
         (if force \<or> prev_val = None then
            (case body planted of
               None \<Rightarrow> None
             | Some (kv', Inl e) \<Rightarrow>
                 if isinstance_Exception e \<or> e = Shutdown
                 then Some (hdel kv' hash_key params_hash, Inl e)
                 else Some (kv', Inl e)
             | Some (kv', Inr a) \<Rightarrow> Some (kv', Inr a))
          else if length (the prev_val) = 0 then Some (kv, Inl ResourceCreationInProgress)
          else Some (kv, Inl ResourceExists)) \<and>
       hget planted hash_key params_hash = Some [] \<and>
       reserve_resource X planted params False body = Some (planted, Inl ResourceCreationInProgress))"
  by (auto simp add: Let_def reserve_resource_registered [OF namespace_registered] reservation_scope_def
      pipeline_hget_hsetnx_def hsetnx_absent hsetnx_present hget_hset IN_PROGRESS_VAL_def
      split: option.splits sum.splits prod.splits)
text \<open>
  C2, as the code has it. For a granted reservation whose scope ends on the store \<open>kv'\<close>:
  an exception that is an instance of \<open>Exception\<close>, or the worker's \<open>Shutdown\<close>, has
  the entry deleted before it propagates, so the entry is absent afterwards; any other
  exception (a \<open>BaseException\<close> such as \<open>TimeLimitExceeded\<close>) propagates with the store
  as the scope left it; a scope that completes leaves the store as it left it, the
  reservation touching nothing on the way out.
\<close>

theorem reservation_cleanup:
  assumes key: "get_resource_hash_key (class_of params) = Inr hash_key"
    and granted: "force \<or> hget kv hash_key (str (hash X params)) = None"
    and scope: "body (hset kv hash_key (str (hash X params)) IN_PROGRESS_VAL) = Some (kv', outcome)"
  shows "reserve_resource X kv params force body =
           (case outcome of
              Inl e \<Rightarrow>
                if isinstance_Exception e \<or> e = Shutdown
                then Some (hdel kv' hash_key (str (hash X params)), Inl e)
                else Some (kv', Inl e)
            | Inr a \<Rightarrow> Some (kv', Inr a)) \<and>
         hget (hdel kv' hash_key (str (hash X params))) hash_key (str (hash X params)) = None"
  using granted scope
  by (simp add: reserve_resource_registered [OF key] reservation_scope_def hget_hdel split: sum.splits)

lemma example_filter_set_key:
  "get_resource_hash_key (class_of (PFilterSet example_filter_set)) = Inr ''filter_sets''"
  by (simp add: get_resource_hash_key_def RESOURCE_HASH_KEYS_def)

lemma hdel_hset_empty: "hdel (hset Map.empty k h v) k h = Map.empty"
  by (simp add: hdel_def hset_def)

theorem reservation_cleanup_witness:
  "get_resource_hash_key (class_of (PFilterSet example_filter_set)) = Inr ''filter_sets'' \<and>
   hget Map.empty ''filter_sets'' (str (hash example_ext (PFilterSet example_filter_set))) = None \<and>
   reserve_resource example_ext Map.empty (PFilterSet example_filter_set) False
     (\<lambda>kv. Some (kv, Inl RuntimeError :: exn + unit)) = Some (Map.empty, Inl RuntimeError)"
proof -
  have absent: "False \<or> hget Map.empty ''filter_sets'' (str (hash example_ext (PFilterSet example_filter_set))) = None"
    by (simp add: hget_def)
  show ?thesis
    using reservation_cleanup [OF example_filter_set_key absent,
        where body = "\<lambda>kv. Some (kv, Inl RuntimeError :: exn + unit)"
          and outcome = "Inl RuntimeError"
          and kv' = "hset Map.empty ''filter_sets'' (str (hash example_ext (PFilterSet example_filter_set))) IN_PROGRESS_VAL"]
    by (simp add: hget_def hdel_hset_empty get_resource_hash_key_def RESOURCE_HASH_KEYS_def)
qed

text \<open>
  C2 as stated fails: dramatiq's \<open>TimeLimitExceeded\<close> raised inside the scope of a granted
  reservation propagates and the entry is still the in-progress sentinel.
\<close>

theorem reservation_cleanup_counterexample:
  "reserve_resource example_ext Map.empty (PFilterSet example_filter_set) False
     (\<lambda>kv. Some (kv, Inl TimeLimitExceeded :: exn + unit)) =
   Some (hset Map.empty ''filter_sets'' (str (hash example_ext (PFilterSet example_filter_set))) [],
         Inl TimeLimitExceeded) \<and>
   is_in_progress
     (hget (hset Map.empty ''filter_sets'' (str (hash example_ext (PFilterSet example_filter_set))) [])
        ''filter_sets'' (str (hash example_ext (PFilterSet example_filter_set))))"
  by (simp add: reserve_resource_registered [OF example_filter_set_key] reservation_scope_def
      hget_def hset_def is_in_progress_def IN_PROGRESS_VAL_def)

text \<open>
  C10. When the entry holds a completed result, which \<open>find_resource\<close> returns, a forced
  reservation runs its scope on the store in which the entry is the zero-length sentinel,
  where \<open>find_resource\<close> raises \<open>ResourceCreationInProgress\<close>; if the scope then fails with
  an exception the reservation cleans up after, the entry is deleted, not restored: the
  lookup afterwards raises \<open>ResourceDoesNotExist\<close>.
\<close>

theorem forced_reservation_hides_result:
  assumes key: "get_resource_hash_key (class_of params) = Inr hash_key"
    and rcls: "get_resource_result_cls (class_of params) = Inr result_cls"
    and ready: "hget kv hash_key (str (hash X params)) = Some val"
    and nonempty: "val \<noteq> []"
    and scope: "body (hset kv hash_key (str (hash X params)) IN_PROGRESS_VAL) = Some (kv', Inl e)"
    and caught: "isinstance_Exception e \<or> e = Shutdown"
  shows "find_resource X kv params = parse_raw X result_cls val \<and>
         find_resource X (hset kv hash_key (str (hash X params)) IN_PROGRESS_VAL) params =
           Inl ResourceCreationInProgress \<and>
         reserve_resource X kv params True body =
           Some (hdel kv' hash_key (str (hash X params)), Inl e) \<and>
         find_resource X (hdel kv' hash_key (str (hash X params))) params = Inl ResourceDoesNotExist"
  using ready nonempty caught scope
  by (simp add: find_resource_registered [OF key rcls] reserve_resource_registered [OF key]
      reservation_scope_def hget_hset hget_hdel IN_PROGRESS_VAL_def)

lemma example_filter_set_result_cls:
  "get_resource_result_cls (class_of (PFilterSet example_filter_set)) = Inr FilterSetResult_cls"
  by (simp add: get_resource_result_cls_def RESOURCE_RESULT_CLASSES_def)

lemma example_parse_filter_set:
  "parse_raw example_ext FilterSetResult_cls ''filter set'' = Inr (RFilterSet \<lparr>article_ids = [1, 2, 3, 4]\<rparr>)"
  by (simp add: parse_raw_def example_ext_def example_json_loads_def FilterSetResult_dict_def
      dict_validator_def FilterSetResult_validate_def required_field_def list_validator_def
      int_validator_def and_then_def)

theorem forced_reservation_hides_result_witness:
  "hget (hset Map.empty ''filter_sets'' (str (hash example_ext (PFilterSet example_filter_set))) ''filter set'')
     ''filter_sets'' (str (hash example_ext (PFilterSet example_filter_set))) = Some ''filter set'' \<and>
   find_resource example_ext
     (hset Map.empty ''filter_sets'' (str (hash example_ext (PFilterSet example_filter_set))) ''filter set'')
     (PFilterSet example_filter_set) = Inr (RFilterSet \<lparr>article_ids = [1, 2, 3, 4]\<rparr>) \<and>
   reserve_resource example_ext
     (hset Map.empty ''filter_sets'' (str (hash example_ext (PFilterSet example_filter_set))) ''filter set'')
     (PFilterSet example_filter_set) True (\<lambda>kv. Some (kv, Inl ValueError :: exn + unit)) =
     Some (Map.empty, Inl ValueError) \<and>
   find_resource example_ext Map.empty (PFilterSet example_filter_set) = Inl ResourceDoesNotExist"
proof -
  let ?h = "str (hash example_ext (PFilterSet example_filter_set))"
  let ?kv = "hset Map.empty ''filter_sets'' ?h ''filter set''"
  have ready: "hget ?kv ''filter_sets'' ?h = Some ''filter set''"
    by (simp add: hget_hset)
  have nonempty: "''filter set'' \<noteq> []" by simp
  have caught: "isinstance_Exception ValueError \<or> ValueError = Shutdown" by simp
  have gone: "hdel (hset ?kv ''filter_sets'' ?h IN_PROGRESS_VAL) ''filter_sets'' ?h = Map.empty"
    by (simp add: hdel_def hset_def)
  show ?thesis
    using forced_reservation_hides_result [OF example_filter_set_key example_filter_set_result_cls
        ready nonempty _ caught,
        where body = "\<lambda>kv. Some (kv, Inl ValueError :: exn + unit)"
          and kv' = "hset ?kv ''filter_sets'' ?h IN_PROGRESS_VAL"]
    by (simp del: hash.simps add: ready gone example_parse_filter_set)
qed

section \<open>Clustering results\<close>

lemma and_then_Inr: "and_then r f = Inr b \<Longrightarrow> \<exists>a. r = Inr a \<and> f a = Inr b"
  by (cases r) (simp_all add: and_then_def)

lemma ClusteringResult_init_Inr:
  assumes "ClusteringResult_init X ids ls cs n m li = Inr r"
  shows "cr_article_ids r = ids \<and> labels r = ls \<and> coords r = cs \<and> num_clusters r = n \<and>
         metrics r = m \<and> label_info r = li \<and> length ids = length ls \<and> length ls = length cs"
  using assms
  by (auto simp add: ClusteringResult_init_def Let_def split: if_splits dest!: and_then_Inr)

lemma ClusteringLabelInfo_init_Inr:
  assumes "ClusteringLabelInfo_init npc cvi ccc = Inr li"
  shows "n_per_cluster li = npc \<and> cluster_validity_indices li = cvi \<and> cluster_center_coords li = ccc \<and>
         length npc = length cvi \<and> length cvi = length ccc"
  using assms
  by (auto simp add: ClusteringLabelInfo_init_def Let_def split: if_splits)

lemma blank_clustering_result:
  assumes "priv_make_blank_clustering_result X = Inr r"
  shows "cr_article_ids r = [] \<and> labels r = [] \<and> coords r = [] \<and> num_clusters r = 0 \<and>
         n_per_cluster (label_info r) = [] \<and> cluster_validity_indices (label_info r) = [] \<and>
         cluster_center_coords (label_info r) = [] \<and> silhoutte_coefficient (metrics r) = None"
proof -
  from assms obtain li where li: "ClusteringLabelInfo_init [] [] [] = Inr li"
    and r: "ClusteringResult_init X [] [] [] 0
         (ClusteringOverallMetrics_init
            [(''dbcv'', None), (''silhouette_coefficient'', None),
             (''davies_bouldin_index'', None), (''dunn_index'', None)]) li = Inr r"
    unfolding priv_make_blank_clustering_result_def by (blast dest: and_then_Inr)
  from ClusteringLabelInfo_init_Inr [OF li] ClusteringResult_init_Inr [OF r]
  show ?thesis by (simp add: ClusteringOverallMetrics_init_def kwarg_def)
qed

lemma clustering_result_of_labels_Inr:
  assumes "clustering_result_of_labels X params ids umap_data raw_labels = Inr r"
  shows "\<exists>d cvi sil db dunn li.
           raw_labels \<noteq> [] \<and>
           cluster_validity X params umap_data raw_labels = Inr (d, cvi) \<and>
           ClusteringLabelInfo_init (map (\<lambda>l. int (count_list raw_labels l)) (np_unique raw_labels))
             cvi (group_means umap_data raw_labels) = Inr li \<and>
           ClusteringResult_init X ids
             (map (\<lambda>cluster_id. if cluster_id = - 1 then None else Some cluster_id) raw_labels)
             umap_data (Max (set raw_labels) + 1)
             (ClusteringOverallMetrics_init
                [(''dbcv'', d), (''silhouette_coefficient'', Some sil),
                 (''davies_bouldin_index'', Some db), (''dunn_index'', Some dunn)]) li = Inr r"
  using assms
  apply (auto simp add: clustering_result_of_labels_def Let_def split: if_splits prod.splits dest!: and_then_Inr)
  apply blast
  done

lemma clustering_of_articles_Inr:
  assumes "clustering_of_articles X params found = Inr r"
  shows "priv_make_blank_clustering_result X = Inr r \<or>
         (\<exists>ids umap_data raw_labels. clustering_result_of_labels X params ids umap_data raw_labels = Inr r)"
  using assms
  by (auto simp add: clustering_of_articles_def Let_def split: if_splits dest!: and_then_Inr)

lemma priv_make_clustering_Inr:
  assumes "priv_make_clustering X kv params = Some (Inr r)"
  shows "\<exists>found. clustering_of_articles X params found = Inr r"
  using assms
  by (auto simp add: priv_make_clustering_def split: option.splits sum.splits BaseModel.splits)

lemma set_non_null: "set [c. Some c \<leftarrow> ls] = {c. Some c \<in> set ls}"
  by (induction ls) (auto split: option.splits)

lemma non_null_labels:
  "{c. Some c \<in> set (map (\<lambda>cluster_id. if cluster_id = - 1 then None else Some cluster_id) raw_labels)} =
   set raw_labels - {- 1 :: int}"
  by auto

lemma null_label:
  "None \<in> set (map (\<lambda>cluster_id. if cluster_id = - 1 then None else Some cluster_id) raw_labels) \<longleftrightarrow>
   (- 1 :: int) \<in> set raw_labels"
  by auto

lemma max_label:
  fixes raw_labels :: "int list"
  assumes ne: "raw_labels \<noteq> []" and ge: "\<forall>c \<in> set raw_labels - {- 1}. 0 \<le> c"
  shows "Max (set raw_labels) + 1 =
         (if set raw_labels - {- 1} = {} then 0 else Max (set raw_labels - {- 1}) + 1)"
proof (cases "set raw_labels - {- 1} = {}")
  case True
  with ne have "set raw_labels = {- 1}" by (cases raw_labels) auto
  with True show ?thesis by simp
next
  case False
  let ?S = "set raw_labels - {- 1}"
  have fin: "finite ?S" by simp
  have mem: "Max ?S \<in> ?S" using fin False by (rule Max_in)
  have "Max (set raw_labels) = Max ?S"
  proof (rule Max_eqI)
    show "finite (set raw_labels)" by simp
    show "Max ?S \<in> set raw_labels" using mem by simp
    fix y assume y: "y \<in> set raw_labels"
    show "y \<le> Max ?S"
    proof (cases "y = - 1")
      case True
      from mem ge have "0 \<le> Max ?S" by blast
      with True show ?thesis by simp
    next
      case False
      with y have "y \<in> ?S" by simp
      with fin show ?thesis by (rule Max_ge)
    qed
  qed
  with False show ?thesis by simp
qed

text \<open>
  C6. Every result that \<open>_make_clustering\<close> returns has as many article ids as labels as
  coordinates, and its \<open>num_clusters\<close> is the largest non-null label plus one, or 0 when
  every label is null; the non-null labels are numbered from 0, as HDBSCAN numbers them.
\<close>

theorem clustering_result_invariant:
  assumes run: "priv_make_clustering X kv params = Some (Inr r)"
    and zero_based: "list_all (\<lambda>l. case l of None \<Rightarrow> True | Some c \<Rightarrow> 0 \<le> c) (labels r)"
  shows "length (cr_article_ids r) = length (labels r) \<and>
         length (labels r) = length (coords r) \<and>
         num_clusters r =
           (if \<forall>l \<in> set (labels r). l = None then 0
            else Max (set [c. Some c \<leftarrow> labels r]) + 1)"
proof -
  from run obtain found where "clustering_of_articles X params found = Inr r"
    by (blast dest: priv_make_clustering_Inr)
  then consider (blank) "priv_make_blank_clustering_result X = Inr r"
    | (clustered) ids umap_data raw_labels
        where "clustering_result_of_labels X params ids umap_data raw_labels = Inr r"
    by (blast dest: clustering_of_articles_Inr)
  then show ?thesis
  proof cases
    case blank
    from blank_clustering_result [OF blank] show ?thesis by simp
  next
    case clustered
    let ?ls = "map (\<lambda>cluster_id. if cluster_id = - 1 then None else Some cluster_id) raw_labels"
    from clustering_result_of_labels_Inr [OF clustered]
    obtain m li where ne: "raw_labels \<noteq> []"
      and init: "ClusteringResult_init X ids ?ls umap_data (Max (set raw_labels) + 1) m li = Inr r"
      by blast
    from ClusteringResult_init_Inr [OF init]
    have fields: "cr_article_ids r = ids" "labels r = ?ls" "coords r = umap_data"
        "num_clusters r = Max (set raw_labels) + 1"
        "length ids = length ?ls" "length ?ls = length umap_data"
      by simp_all
    have nn: "{c. Some c \<in> set (labels r)} = set raw_labels - {- 1}"
      unfolding fields(2) by (rule non_null_labels)
    have "\<forall>c. Some c \<in> set (labels r) \<longrightarrow> 0 \<le> c"
      using zero_based by (force simp add: list_all_iff)
    then have ge: "\<forall>c \<in> set raw_labels - {- 1}. 0 \<le> c"
      using nn by blast
    have all_null: "(\<forall>l \<in> set (labels r). l = None) \<longleftrightarrow> set raw_labels - {- 1} = {}"
      using nn by (metis (mono_tags, lifting) Collect_empty_eq option.distinct(1) option.exhaust)
    have "num_clusters r =
        (if set raw_labels - {- 1} = {} then 0 else Max (set raw_labels - {- 1}) + 1)"
      unfolding fields(4) by (rule max_label [OF ne ge])
    then have "num_clusters r =
           (if \<forall>l \<in> set (labels r). l = None then 0
            else Max (set [c. Some c \<leftarrow> labels r]) + 1)"
      by (simp only: all_null set_non_null nn)
    with fields show ?thesis by simp
  qed
qed

text \<open>
  C7, as the code has it. In every result that \<open>_make_clustering\<close> returns the per-cluster
  counts, centre coordinates and validity indices have one common length: the number of
  distinct non-null labels, plus one when some point is an outlier (the outliers make up
  a group of their own in the counts and the centres, and a zero is put in front of the
  validity indices for it).
\<close>

theorem cluster_level_array_lengths:
  assumes run: "priv_make_clustering X kv params = Some (Inr r)"
  shows "length (n_per_cluster (label_info r)) = length (cluster_center_coords (label_info r)) \<and>
         length (cluster_validity_indices (label_info r)) = length (n_per_cluster (label_info r)) \<and>
         length (n_per_cluster (label_info r)) =
           length (remdups [c. Some c \<leftarrow> labels r]) + (if None \<in> set (labels r) then 1 else 0)"
proof -
  from run obtain found where "clustering_of_articles X params found = Inr r"
    by (blast dest: priv_make_clustering_Inr)
  then consider (blank) "priv_make_blank_clustering_result X = Inr r"
    | (clustered) ids umap_data raw_labels
        where "clustering_result_of_labels X params ids umap_data raw_labels = Inr r"
    by (blast dest: clustering_of_articles_Inr)
  then show ?thesis
  proof cases
    case blank
    from blank_clustering_result [OF blank] show ?thesis by simp
  next
    case clustered
    let ?ls = "map (\<lambda>cluster_id. if cluster_id = - 1 then None else Some cluster_id) raw_labels"
    let ?npc = "map (\<lambda>l. int (count_list raw_labels l)) (np_unique raw_labels)"
    from clustering_result_of_labels_Inr [OF clustered]
    obtain cvi m li where
      linit: "ClusteringLabelInfo_init ?npc cvi (group_means umap_data raw_labels) = Inr li"
      and init: "ClusteringResult_init X ids ?ls umap_data (Max (set raw_labels) + 1) m li = Inr r"
      by blast
    from ClusteringResult_init_Inr [OF init]
    have fields: "labels r = ?ls" "label_info r = li" by simp_all
    from ClusteringLabelInfo_init_Inr [OF linit]
    have lfields: "n_per_cluster li = ?npc" "cluster_validity_indices li = cvi"
        "cluster_center_coords li = group_means umap_data raw_labels"
        "length ?npc = length cvi" "length cvi = length (group_means umap_data raw_labels)"
      by simp_all
    have n: "length ?npc = card (set raw_labels)"
      by (simp add: np_unique_def length_remdups_card_conv)
    have nn: "set [c. Some c \<leftarrow> labels r] = set raw_labels - {- 1}"
      unfolding fields(1) set_non_null by (rule non_null_labels)
    have null: "None \<in> set (labels r) \<longleftrightarrow> - 1 \<in> set raw_labels"
      unfolding fields(1) by (rule null_label)
    have "card (set raw_labels) =
        card (set raw_labels - {- 1}) + (if - 1 \<in> set raw_labels then 1 else 0)"
    proof (cases "- 1 \<in> set raw_labels")
      case True
      then show ?thesis using card.remove [of "set raw_labels" "- 1"] by simp
    next
      case False
      then show ?thesis by simp
    qed
    then have "length ?npc =
        length (remdups [c. Some c \<leftarrow> labels r]) + (if None \<in> set (labels r) then 1 else 0)"
      by (simp only: n length_remdups_card_conv nn null)
    with fields lfields show ?thesis by simp
  qed
qed

text \<open>
  When the validity computation is skipped (a minimum cluster size or a minimum number of
  samples of 2 or less) the validity indices are empty while the counts are not, so the
  length validator rejects the label information: only the blank result is ever returned.
\<close>

lemma skipped_validity_only_blank:
  assumes run: "priv_make_clustering X kv params = Some (Inr r)"
    and skipped: "hdbscan_min_cluster_size params \<le> 2 \<or> hdbscan_min_samples params \<le> 2"
  shows "priv_make_blank_clustering_result X = Inr r"
proof -
  from run obtain found where "clustering_of_articles X params found = Inr r"
    by (blast dest: priv_make_clustering_Inr)
  then consider (blank) "priv_make_blank_clustering_result X = Inr r"
    | (clustered) ids umap_data raw_labels
        where "clustering_result_of_labels X params ids umap_data raw_labels = Inr r"
    by (blast dest: clustering_of_articles_Inr)
  then show ?thesis
  proof cases
    case blank
    then show ?thesis .
  next
    case clustered
    let ?npc = "map (\<lambda>l. int (count_list raw_labels l)) (np_unique raw_labels)"
    from clustering_result_of_labels_Inr [OF clustered]
    obtain d cvi li where ne: "raw_labels \<noteq> []"
      and validity: "cluster_validity X params umap_data raw_labels = Inr (d, cvi)"
      and linit: "ClusteringLabelInfo_init ?npc cvi (group_means umap_data raw_labels) = Inr li"
      by blast
    from validity skipped have "cvi = []"
      by (simp add: cluster_validity_def)
    with ClusteringLabelInfo_init_Inr [OF linit] have "np_unique raw_labels = []"
      by simp
    then have "set (np_unique raw_labels) = {}"
      by simp
    then have "raw_labels = []"
      by (simp add: np_unique_def)
    with ne show ?thesis by simp
  qed
qed

text \<open>The silhouette field is null in every result, blank or not.\<close>

lemma silhouette_never_stored:
  assumes run: "priv_make_clustering X kv params = Some (Inr r)"
  shows "silhoutte_coefficient (metrics r) = None"
proof -
  from run obtain found where "clustering_of_articles X params found = Inr r"
    by (blast dest: priv_make_clustering_Inr)
  then consider (blank) "priv_make_blank_clustering_result X = Inr r"
    | (clustered) ids umap_data raw_labels
        where "clustering_result_of_labels X params ids umap_data raw_labels = Inr r"
    by (blast dest: clustering_of_articles_Inr)
  then show ?thesis
  proof cases
    case blank
    from blank_clustering_result [OF blank] show ?thesis by simp
  next
    case clustered
    from clustering_result_of_labels_Inr [OF clustered]
    obtain d sil db dunn ls n li where
      "ClusteringResult_init X ids ls umap_data n
             (ClusteringOverallMetrics_init
                [(''dbcv'', d), (''silhouette_coefficient'', Some sil),
                 (''davies_bouldin_index'', Some db), (''dunn_index'', Some dunn)]) li = Inr r"
      by blast
    from ClusteringResult_init_Inr [OF this]
    show ?thesis by (simp add: ClusteringOverallMetrics_init_def kwarg_def)
  qed
qed

lemma poll_resource_found:
  "find_resource X kv params = Inr r \<Longrightarrow> poll_resource X kv params = Some (Inr r)"
  by (subst poll_resource.simps) simp

lemma example_find_filter_set:
  "find_resource example_ext example_kv (PFilterSet example_filter_set) =
     Inr (RFilterSet \<lparr>article_ids = [1, 2, 3, 4]\<rparr>)"
  by (simp del: hash.simps
      add: find_resource_registered [OF example_filter_set_key example_filter_set_result_cls]
        example_kv_def hget_def hset_def example_parse_filter_set)

lemma example_clustering_of_articles:
  "clustering_of_articles example_ext example_clustering [1, 2, 3, 4] = Inr example_clustering_result"
  by (simp add: clustering_of_articles_def with_temp_article_ids_def example_clustering_def
      example_filter_set_def example_ext_def and_then_def hdbscan_raw_labels_def
      clustering_result_of_labels_def cluster_validity_def np_unique_def group_means_def mean_def
      ClusteringOverallMetrics_init_def kwarg_def ClusteringLabelInfo_init_def
      ClusteringResult_init_def ClusteringResult_to_plotly_def PlotlyScatter_init_def
      example_clustering_result_def Let_def)

lemma example_filter_set_of_clustering: "filter_set example_clustering = example_filter_set"
  by (simp add: example_clustering_def)

lemma example_run:
  "priv_make_clustering example_ext example_kv example_clustering = Some (Inr example_clustering_result)"
  by (simp add: priv_make_clustering_def example_filter_set_of_clustering
      poll_resource_found [OF example_find_filter_set] example_clustering_of_articles)

theorem clustering_result_invariant_witness:
  "priv_make_clustering example_ext example_kv example_clustering = Some (Inr example_clustering_result) \<and>
   list_all (\<lambda>l. case l of None \<Rightarrow> True | Some c \<Rightarrow> 0 \<le> c) (labels example_clustering_result) \<and>
   length (cr_article_ids example_clustering_result) = 4 \<and>
   length (labels example_clustering_result) = 4 \<and>
   length (coords example_clustering_result) = 4 \<and>
   num_clusters example_clustering_result = 1"
proof -
  have zero_based:
    "list_all (\<lambda>l. case l of None \<Rightarrow> True | Some c \<Rightarrow> 0 \<le> c) (labels example_clustering_result)"
    by (simp add: example_clustering_result_def)
  from clustering_result_invariant [OF example_run zero_based]
  show ?thesis using zero_based
    by (simp add: example_run example_clustering_result_def)
qed

theorem cluster_level_array_lengths_witness:
  "priv_make_clustering example_ext example_kv example_clustering = Some (Inr example_clustering_result) \<and>
   length (n_per_cluster (label_info example_clustering_result)) =
     length (remdups [c. Some c \<leftarrow> labels example_clustering_result]) + 1"
  using cluster_level_array_lengths [OF example_run]
  by (simp add: example_run example_clustering_result_def)

text \<open>
  C7 as stated fails: with one outlier and one cluster the three arrays have length 2,
  while there is one distinct non-null label.
\<close>

theorem cluster_level_array_lengths_counterexample:
  "priv_make_clustering example_ext example_kv example_clustering = Some (Inr example_clustering_result) \<and>
   length (n_per_cluster (label_info example_clustering_result)) = 2 \<and>
   length (cluster_center_coords (label_info example_clustering_result)) = 2 \<and>
   length (cluster_validity_indices (label_info example_clustering_result)) = 2 \<and>
   length (remdups [c. Some c \<leftarrow> labels example_clustering_result]) = 1"
  by (simp add: example_run example_clustering_result_def)

text \<open>
  C9 fails on the code. The schema declares the field \<open>silhoutte_coefficient\<close> while
  \<open>_make_clustering\<close> passes the keyword \<open>silhouette_coefficient\<close>, which pydantic
  ignores: the computed score (here 1/2) is dropped and the field of the result is null,
  while the Davies-Bouldin index next to it is stored.
\<close>

theorem silhouette_dropped:
  "silhouette_score example_ext (coords example_clustering_result) [- 1, 0, 0, 0] = Inr (1 / 2) \<and>
   priv_make_clustering example_ext example_kv example_clustering = Some (Inr example_clustering_result) \<and>
   silhoutte_coefficient (metrics example_clustering_result) = None \<and>
   davies_bouldin_index (metrics example_clustering_result) = Some 1"
proof -
  have score: "silhouette_score example_ext (coords example_clustering_result) [- 1, 0, 0, 0] = Inr (1 / 2)"
    by (simp add: example_ext_def)
  have stored: "silhoutte_coefficient (metrics example_clustering_result) = None"
      "davies_bouldin_index (metrics example_clustering_result) = Some 1"
    by (simp_all add: example_clustering_result_def)
  from score example_run stored show ?thesis by blast
qed

section \<open>Serialisation and validation of what was serialised\<close>

lemma collect_map:
  assumes "\<And>a. a \<in> set xs \<Longrightarrow> f (g a) = Inr a"
  shows "collect f (map g xs) = Inr xs"
  using assms by (induction xs) (simp_all add: and_then_def)

lemma int_list_round_trip: "list_validator (int_validator X) (JArr (map JInt ns)) = Inr ns"
  by (simp add: list_validator_def collect_map int_validator_def)

lemma float_list_round_trip: "list_validator (float_validator X) (JArr (map JFloat fs)) = Inr fs"
  by (simp add: list_validator_def collect_map float_validator_def)

lemma str_list_round_trip: "list_validator (str_validator X) (JArr (map JStr ss)) = Inr ss"
  by (simp add: list_validator_def collect_map str_validator_def)

lemma coords_round_trip: "list_validator (pair_validator X) (coords_dict cs) = Inr cs"
  by (simp add: list_validator_def coords_dict_def collect_map pair_validator_def float_validator_def and_then_def)

lemma labels_round_trip:
  "list_validator (optional_validator (int_validator X)) (JArr (map (optional_dict JInt) ls)) = Inr ls"
  by (simp add: list_validator_def collect_map optional_validator_def optional_dict_def int_validator_def
      split: option.splits)

lemma optional_float_round_trip:
  "optional_validator (float_validator X) (optional_dict JFloat v) = Inr v"
  by (simp add: optional_validator_def optional_dict_def float_validator_def split: option.splits)

lemma FilterSetResult_round_trip:
  "parse_obj X FilterSetResult_cls (FilterSetResult_dict r) = Inr (RFilterSet r)"
  by (simp add: FilterSetResult_dict_def dict_validator_def FilterSetResult_validate_def
      required_field_def int_list_round_trip and_then_def)

lemma ClusteringOverallMetrics_round_trip:
  "nested_model X (ClusteringOverallMetrics_validate X) (ClusteringOverallMetrics_dict m) = Inr m"
  by (simp add: nested_model_def ClusteringOverallMetrics_dict_def dict_validator_def
      ClusteringOverallMetrics_validate_def optional_field_def optional_float_round_trip
      ClusteringOverallMetrics_init_def kwarg_def and_then_def)

lemma ClusteringLabelInfo_round_trip:
  assumes "ClusteringLabelInfo_init npc cvi ccc = Inr li"
  shows "nested_model X (ClusteringLabelInfo_validate X) (ClusteringLabelInfo_dict li) = Inr li"
proof -
  from ClusteringLabelInfo_init_Inr [OF assms]
  have fields: "n_per_cluster li = npc" "cluster_validity_indices li = cvi" "cluster_center_coords li = ccc"
    by simp_all
  show ?thesis
    using assms
    by (simp add: nested_model_def ClusteringLabelInfo_dict_def dict_validator_def
        ClusteringLabelInfo_validate_def required_field_def int_list_round_trip
        float_list_round_trip coords_round_trip fields and_then_def)
qed

lemma ClusteringResult_round_trip:
  assumes r: "ClusteringResult_init X ids ls cs n m li = Inr r"
    and li: "ClusteringLabelInfo_init npc cvi ccc = Inr li"
  shows "parse_obj X ClusteringResult_cls (ClusteringResult_dict r) = Inr (RClustering r)"
proof -
  from ClusteringResult_init_Inr [OF r]
  have fields: "cr_article_ids r = ids" "labels r = ls" "coords r = cs" "num_clusters r = n"
      "metrics r = m" "label_info r = li" "length ids = length ls" "length ls = length cs"
    by simp_all
  from r fields obtain plot where plot: "ClusteringResult_to_plotly X ids ls cs = Inr plot"
    and rec: "r = \<lparr>cr_article_ids = ids, labels = ls, coords = cs, num_clusters = n,
             metrics = m, label_info = li, plotly_data = Some plot\<rparr>"
    by (auto simp add: ClusteringResult_init_def Let_def dest!: and_then_Inr)
  have "ClusteringResult_validate X
          [(''article_ids'', JArr (map JInt ids)),
           (''labels'', JArr (map (optional_dict JInt) ls)),
           (''coords'', coords_dict cs),
           (''num_clusters'', JInt n),
           (''metrics'', ClusteringOverallMetrics_dict m),
           (''label_info'', ClusteringLabelInfo_dict li),
           (''plotly_data'', optional_dict PlotlyScatter_dict (Some plot))] = Inr r"
    using fields(7,8) plot
    by (simp add: ClusteringResult_validate_def required_field_def int_list_round_trip
        labels_round_trip coords_round_trip ClusteringOverallMetrics_round_trip
        ClusteringLabelInfo_round_trip [OF li] int_validator_def and_then_def rec)
  then show ?thesis
    by (simp add: ClusteringResult_dict_def dict_validator_def and_then_def rec)
qed

lemma ArticleGroup_round_trip:
  "nested_model X (ArticleGroup_validate X) (ArticleGroup_dict g) = Inr g"
  by (simp add: nested_model_def ArticleGroup_dict_def dict_validator_def ArticleGroup_validate_def
      required_field_def int_list_round_trip str_list_round_trip int_validator_def and_then_def)

lemma ArticleGroupResult_round_trip:
  "parse_obj X ArticleGroupResult_cls (ArticleGroupResult_dict r) = Inr (RArticleGroup r)"
  by (simp add: ArticleGroupResult_dict_def dict_validator_def ArticleGroupResult_validate_def
      required_field_def list_validator_def collect_map ArticleGroup_round_trip and_then_def)

lemma blank_round_trip:
  assumes "priv_make_blank_clustering_result X = Inr r"
  shows "parse_obj X ClusteringResult_cls (ClusteringResult_dict r) = Inr (RClustering r)"
proof -
  from assms obtain li where li: "ClusteringLabelInfo_init [] [] [] = Inr li"
    and r: "ClusteringResult_init X [] [] [] 0
         (ClusteringOverallMetrics_init
            [(''dbcv'', None), (''silhouette_coefficient'', None),
             (''davies_bouldin_index'', None), (''dunn_index'', None)]) li = Inr r"
    unfolding priv_make_blank_clustering_result_def by (blast dest: and_then_Inr)
  from r li show ?thesis by (rule ClusteringResult_round_trip)
qed

lemma priv_make_clustering_round_trip:
  assumes run: "priv_make_clustering X kv params = Some (Inr r)"
  shows "parse_obj X ClusteringResult_cls (ClusteringResult_dict r) = Inr (RClustering r)"
proof -
  from run obtain found where "clustering_of_articles X params found = Inr r"
    by (blast dest: priv_make_clustering_Inr)
  then consider (blank) "priv_make_blank_clustering_result X = Inr r"
    | (clustered) ids umap_data raw_labels
        where "clustering_result_of_labels X params ids umap_data raw_labels = Inr r"
    by (blast dest: clustering_of_articles_Inr)
  then show ?thesis
  proof cases
    case blank
    then show ?thesis by (rule blank_round_trip)
  next
    case clustered
    from clustering_result_of_labels_Inr [OF clustered]
    obtain npc cvi ccc ls n m li where li: "ClusteringLabelInfo_init npc cvi ccc = Inr li"
      and r: "ClusteringResult_init X ids ls umap_data n m li = Inr r"
      by blast
    from r li show ?thesis by (rule ClusteringResult_round_trip)
  qed
qed

section \<open>Creation and lookup\<close>

lemma make_resource_scope_created:
  assumes key: "get_resource_hash_key (class_of params) = Inr hash_key"
    and func: "get_resource_creation_func (class_of params) = Inr func"
    and created: "func X kv params = Some (Inr r)"
  shows "make_resource_scope X params kv =
           Some (hset kv hash_key (str (hash X params)) (json X r), Inr ())"
  using assms by (simp add: make_resource_scope_def Let_def)

lemma created_round_trip:
  assumes "(case params of
              PFilterSet p \<Rightarrow> Some (map_sum id RFilterSet (priv_make_filter_set X kv p))
            | PClustering p \<Rightarrow> map_option (map_sum id RClustering) (priv_make_clustering X kv p)
            | PArticleGroup p \<Rightarrow> map_option (map_sum id RArticleGroup) (priv_make_article_groups X kv p)) =
           Some (Inr r)"
  shows "\<exists>hash_key result_cls func.
           get_resource_hash_key (class_of params) = Inr hash_key \<and>
           hash_key = (case params of PFilterSet _ \<Rightarrow> ''filter_sets'' | PClustering _ \<Rightarrow> ''clusterings''
                       | PArticleGroup _ \<Rightarrow> ''article_groups'') \<and>
           get_resource_result_cls (class_of params) = Inr result_cls \<and>
           get_resource_creation_func (class_of params) = Inr func \<and>
           func X kv params = Some (Inr r) \<and>
           parse_obj X result_cls (BaseModel_dict r) = Inr r"
proof (cases params)
  case (PFilterSet p)
  with assms obtain fr where "r = RFilterSet fr"
    by (cases "priv_make_filter_set X kv p") auto
  with PFilterSet assms show ?thesis
    by (simp add: get_resource_hash_key_def RESOURCE_HASH_KEYS_def get_resource_result_cls_def
        RESOURCE_RESULT_CLASSES_def get_resource_creation_func_def RESOURCE_CREATION_FUNCS_def
        FilterSetResult_round_trip del: parse_obj.simps)
next
  case (PClustering p)
  with assms obtain cr where cr: "r = RClustering cr" "priv_make_clustering X kv p = Some (Inr cr)"
    by (cases "priv_make_clustering X kv p"; cases "the (priv_make_clustering X kv p)") auto
  with PClustering assms priv_make_clustering_round_trip [OF cr(2)] show ?thesis
    by (simp add: get_resource_hash_key_def RESOURCE_HASH_KEYS_def get_resource_result_cls_def
        RESOURCE_RESULT_CLASSES_def get_resource_creation_func_def RESOURCE_CREATION_FUNCS_def
        del: parse_obj.simps)
next
  case (PArticleGroup p)
  with assms obtain gr where "r = RArticleGroup gr"
    by (cases "priv_make_article_groups X kv p"; cases "the (priv_make_article_groups X kv p)") auto
  with PArticleGroup assms show ?thesis
    by (simp add: get_resource_hash_key_def RESOURCE_HASH_KEYS_def get_resource_result_cls_def
        RESOURCE_RESULT_CLASSES_def get_resource_creation_func_def RESOURCE_CREATION_FUNCS_def
        ArticleGroupResult_round_trip del: parse_obj.simps)
qed

text \<open>
  C4. Take a call of \<open>make_resource\<close> that is granted the reservation (no prior entry,
  or \<open>force\<close>) and whose creation function, the one of the class of the parameters, run
  on the store with the sentinel planted, returns the result \<open>r\<close>. Then
  \<open>make_resource\<close> returns normally, the entry holds the serialisation of \<open>r\<close>, and
  \<open>find_resource\<close> on the store it leaves returns \<open>r\<close> itself: the dictionary of
  \<open>r\<close> validates back to \<open>r\<close> for every result a creation function returns, the
  recomputed \<open>plotly_data\<close> included. Of the text layer it is assumed that
  \<open>json.loads\<close> gives back the document \<open>json.dumps\<close> was given, and that the text is
  not empty.
\<close>

theorem make_resource_round_trip:
  assumes namespace: "hash_key = (case params of PFilterSet _ \<Rightarrow> ''filter_sets''
                        | PClustering _ \<Rightarrow> ''clusterings'' | PArticleGroup _ \<Rightarrow> ''article_groups'')"
    and planted: "planted = hset kv hash_key (str (hash X params)) IN_PROGRESS_VAL"
    and granted: "force \<or> hget kv hash_key (str (hash X params)) = None"
    and created: "(case params of
              PFilterSet p \<Rightarrow> Some (map_sum id RFilterSet (priv_make_filter_set X planted p))
            | PClustering p \<Rightarrow> map_option (map_sum id RClustering) (priv_make_clustering X planted p)
            | PArticleGroup p \<Rightarrow> map_option (map_sum id RArticleGroup) (priv_make_article_groups X planted p)) =
           Some (Inr r)"
    and text_layer: "json_loads X (json_dumps X (BaseModel_dict r)) = Some (BaseModel_dict r)"
    and nonempty: "json_dumps X (BaseModel_dict r) \<noteq> []"
  shows "\<exists>kv'. make_resource X kv params force = Some (kv', Inr ()) \<and>
               hget kv' hash_key (str (hash X params)) = Some (json X r) \<and>
               find_resource X kv' params = Inr r"
proof -
  let ?h = "str (hash X params)"
  let ?kv' = "hset planted hash_key ?h (json X r)"
  from created_round_trip [OF created] namespace
  obtain result_cls func where key: "get_resource_hash_key (class_of params) = Inr hash_key"
    and rcls: "get_resource_result_cls (class_of params) = Inr result_cls"
    and func: "get_resource_creation_func (class_of params) = Inr func"
    and run: "func X planted params = Some (Inr r)"
    and parse: "parse_obj X result_cls (BaseModel_dict r) = Inr r"
    by auto
  have scope: "make_resource_scope X params planted = Some (?kv', Inr ())"
    by (rule make_resource_scope_created [OF key func run])
  have reserve: "reserve_resource X kv params force (make_resource_scope X params) = Some (?kv', Inr ())"
    using granted scope planted by (simp add: reserve_resource_registered [OF key] reservation_scope_def)
  have made: "make_resource X kv params force = Some (?kv', Inr ())"
    using rcls reserve by (simp add: make_resource_def)
  have stored: "hget ?kv' hash_key ?h = Some (json X r)"
    by (rule hget_hset)
  have found: "find_resource X ?kv' params = Inr r"
    using nonempty text_layer parse
    by (simp add: find_resource_registered [OF key rcls] hget_hset json_def parse_raw_def)
  from made stored found show ?thesis by blast
qed

lemma example_find_filter_set_stored:
  assumes "hget kv ''filter_sets'' (str (hash example_ext (PFilterSet example_filter_set))) = Some ''filter set''"
  shows "find_resource example_ext kv (PFilterSet example_filter_set) =
     Inr (RFilterSet \<lparr>article_ids = [1, 2, 3, 4]\<rparr>)"
  using assms
  by (simp del: hash.simps
      add: find_resource_registered [OF example_filter_set_key example_filter_set_result_cls]
        example_parse_filter_set)

lemma example_run_stored:
  assumes "hget kv ''filter_sets'' (str (hash example_ext (PFilterSet example_filter_set))) = Some ''filter set''"
  shows "priv_make_clustering example_ext kv example_clustering = Some (Inr example_clustering_result)"
  by (simp add: priv_make_clustering_def example_filter_set_of_clustering
      poll_resource_found [OF example_find_filter_set_stored [OF assms]] example_clustering_of_articles)

lemma example_text_layer:
  "json_dumps example_ext (ClusteringResult_dict example_clustering_result) = ''clustering'' \<and>
   json_loads example_ext ''clustering'' = Some (ClusteringResult_dict example_clustering_result)"
  by (simp add: example_ext_def example_json_dumps_def example_json_loads_def
      ClusteringResult_dict_def FilterSetResult_dict_def)

theorem make_resource_round_trip_witness:
  "hget (hset Map.empty ''filter_sets'' (str (hash example_ext (PFilterSet example_filter_set))) ''filter set'')
     ''clusterings'' (str (hash example_ext (PClustering example_clustering))) = None \<and>
   priv_make_clustering example_ext
     (hset
        (hset Map.empty ''filter_sets'' (str (hash example_ext (PFilterSet example_filter_set))) ''filter set'')
        ''clusterings'' (str (hash example_ext (PClustering example_clustering))) IN_PROGRESS_VAL)
     example_clustering = Some (Inr example_clustering_result) \<and>
   json_loads example_ext (json_dumps example_ext (ClusteringResult_dict example_clustering_result)) =
     Some (ClusteringResult_dict example_clustering_result) \<and>
   json_dumps example_ext (ClusteringResult_dict example_clustering_result) \<noteq> [] \<and>
   (\<exists>kv'. make_resource example_ext
            (hset Map.empty ''filter_sets'' (str (hash example_ext (PFilterSet example_filter_set))) ''filter set'')
            (PClustering example_clustering) False = Some (kv', Inr ()) \<and>
          hget kv' ''clusterings'' (str (hash example_ext (PClustering example_clustering))) =
            Some ''clustering'' \<and>
          find_resource example_ext kv' (PClustering example_clustering) =
            Inr (RClustering example_clustering_result))"
proof -
  let ?hf = "str (hash example_ext (PFilterSet example_filter_set))"
  let ?hc = "str (hash example_ext (PClustering example_clustering))"
  let ?kv = "hset Map.empty ''filter_sets'' ?hf ''filter set''"
  let ?planted = "hset ?kv ''clusterings'' ?hc IN_PROGRESS_VAL"
  have namespace: "''clusterings'' = (case PClustering example_clustering of PFilterSet _ \<Rightarrow> ''filter_sets''
                        | PClustering _ \<Rightarrow> ''clusterings'' | PArticleGroup _ \<Rightarrow> ''article_groups'')"
    by simp
  have absent: "hget ?kv ''clusterings'' ?hc = None"
    by (simp add: hget_def hset_def)
  then have granted: "False \<or> hget ?kv ''clusterings'' ?hc = None"
    by simp
  have stored: "hget ?planted ''filter_sets'' ?hf = Some ''filter set''"
    by (simp add: hget_def hset_def)
  have run: "priv_make_clustering example_ext ?planted example_clustering = Some (Inr example_clustering_result)"
    by (rule example_run_stored [OF stored])
  then have created: "(case PClustering example_clustering of
              PFilterSet p \<Rightarrow> Some (map_sum id RFilterSet (priv_make_filter_set example_ext ?planted p))
            | PClustering p \<Rightarrow> map_option (map_sum id RClustering) (priv_make_clustering example_ext ?planted p)
            | PArticleGroup p \<Rightarrow> map_option (map_sum id RArticleGroup) (priv_make_article_groups example_ext ?planted p)) =
           Some (Inr (RClustering example_clustering_result))"
    by simp
  have text_layer: "json_loads example_ext (json_dumps example_ext (BaseModel_dict (RClustering example_clustering_result))) =
      Some (BaseModel_dict (RClustering example_clustering_result))"
    by (simp add: example_text_layer)
  have nonempty: "json_dumps example_ext (BaseModel_dict (RClustering example_clustering_result)) \<noteq> []"
    by (simp add: example_text_layer)
  from make_resource_round_trip [OF namespace refl granted created text_layer nonempty]
  show ?thesis
    using absent run text_layer nonempty
    by (simp del: hash.simps add: json_def example_text_layer)
qed

section \<open>Parameter hashes\<close>

lemma hash_FilterSetParams_fields:
  "hash_FilterSetParams X p = py_hash X (FilterSetParams_fields p)"
  by (cases "full_text_search_query p"; cases "temp_article_ids p"; cases "limit p")
    (simp_all add: hash_FilterSetParams_def FilterSetParams_fields_def py_optional_def
      hash_optional_def hash_int_tuple_def comp_def)

lemma hash_ClusteringParams_fields:
  "hash_ClusteringParams X p = py_hash X (ClusteringParams_fields p)"
  by (simp add: hash_ClusteringParams_def ClusteringParams_fields_def
      hash_FilterSetParams_fields [symmetric])

lemma hash_ArticleGroupParams_fields:
  "hash_ArticleGroupParams X p = py_hash X (ArticleGroupParams_fields p)"
  by (simp add: hash_ArticleGroupParams_def ArticleGroupParams_fields_def
      hash_ClusteringParams_fields [symmetric])

lemma hash_type_name_and_fields: "hash X p = py_hash X (type_name_and_fields p)"
  by (cases p)
    (simp_all add: hash_FilterSetParams_fields hash_ClusteringParams_fields hash_ArticleGroupParams_fields
      del: py_hash.simps)

lemma py_optional_eq:
  assumes "inj f" and "\<And>a. f a \<noteq> PyNone" and "py_optional f a = py_optional f b"
  shows "a = b"
  using assms assms(2) [THEN not_sym] by (cases a; cases b) (auto simp add: py_optional_def dest: injD)

lemma optional_dict_eq:
  assumes "inj f" and "\<And>a. f a \<noteq> JNull" and "optional_dict f a = optional_dict f b"
  shows "a = b"
  using assms assms(2) [THEN not_sym] by (cases a; cases b) (auto simp add: optional_dict_def dest: injD)

lemma ArticleGroupSummaryTerms_value_eq:
  "ArticleGroupSummaryTerms_value a = ArticleGroupSummaryTerms_value b \<Longrightarrow> a = b"
  by (cases a; cases b) simp_all

lemma inj_PyTuple_ints: "inj (\<lambda>t. PyTuple (map PyInt t))"
  by (auto simp add: inj_def inj_map_eq_map [unfolded inj_def])

lemma FilterSetParams_fields_eq:
  assumes "FilterSetParams_fields p = FilterSetParams_fields q" shows "p = q"
proof -
  from assms have "py_optional PyStr (full_text_search_query p) = py_optional PyStr (full_text_search_query q)"
    "py_optional (\<lambda>t. PyTuple (map PyInt t)) (temp_article_ids p) =
       py_optional (\<lambda>t. PyTuple (map PyInt t)) (temp_article_ids q)"
    "py_optional PyInt (limit p) = py_optional PyInt (limit q)"
    by (simp_all add: FilterSetParams_fields_def)
  then have "full_text_search_query p = full_text_search_query q"
    "temp_article_ids p = temp_article_ids q" "limit p = limit q"
    by (auto intro!: py_optional_eq [of PyStr] py_optional_eq [of PyInt]
        py_optional_eq [OF inj_PyTuple_ints] simp add: inj_def)
  then show ?thesis by simp
qed

lemma ClusteringParams_fields_eq:
  assumes "ClusteringParams_fields p = ClusteringParams_fields q" shows "p = q"
proof -
  from assms have "filter_set p = filter_set q"
    by (simp add: ClusteringParams_fields_def FilterSetParams_fields_eq)
  with assms show ?thesis by (simp add: ClusteringParams_fields_def)
qed

lemma ArticleGroupParams_fields_eq:
  assumes "ArticleGroupParams_fields p = ArticleGroupParams_fields q" shows "p = q"
proof -
  from assms have "clustering p = clustering q" "summary_terms p = summary_terms q"
    by (simp_all add: ArticleGroupParams_fields_def ClusteringParams_fields_eq ArticleGroupSummaryTerms_value_eq)
  with assms show ?thesis by (simp add: ArticleGroupParams_fields_def)
qed

lemma type_name_and_fields_eq:
  "type_name_and_fields p1 = type_name_and_fields p2 \<longleftrightarrow> p1 = p2"
proof
  assume eq: "type_name_and_fields p1 = type_name_and_fields p2"
  show "p1 = p2"
    using eq
    by (cases p1; cases p2)
      (auto simp add: FilterSetParams_fields_eq ClusteringParams_fields_eq ArticleGroupParams_fields_eq,
       simp_all add: FilterSetParams_fields_def ClusteringParams_fields_def ArticleGroupParams_fields_def)
qed simp

lemma inj_JArr_ints: "inj (\<lambda>t. JArr (map JInt t))"
  by (auto simp add: inj_def inj_map_eq_map [unfolded inj_def])

lemma FilterSetParams_dict_eq:
  assumes "FilterSetParams_dict p = FilterSetParams_dict q" shows "p = q"
proof -
  from assms have "optional_dict JStr (full_text_search_query p) = optional_dict JStr (full_text_search_query q)"
    "optional_dict (\<lambda>t. JArr (map JInt t)) (temp_article_ids p) =
       optional_dict (\<lambda>t. JArr (map JInt t)) (temp_article_ids q)"
    "optional_dict JInt (limit p) = optional_dict JInt (limit q)"
    by (simp_all add: FilterSetParams_dict_def)
  then have "full_text_search_query p = full_text_search_query q"
    "temp_article_ids p = temp_article_ids q" "limit p = limit q"
    by (auto intro!: optional_dict_eq [of JStr] optional_dict_eq [of JInt]
        optional_dict_eq [OF inj_JArr_ints] simp add: inj_def)
  then show ?thesis by simp
qed

lemma ClusteringParams_dict_eq:
  assumes "ClusteringParams_dict p = ClusteringParams_dict q" shows "p = q"
proof -
  from assms have "filter_set p = filter_set q"
    by (simp add: ClusteringParams_dict_def FilterSetParams_dict_eq)
  with assms show ?thesis by (simp add: ClusteringParams_dict_def)
qed

lemma ArticleGroupParams_dict_eq:
  assumes "ArticleGroupParams_dict p = ArticleGroupParams_dict q" shows "p = q"
proof -
  from assms have "clustering p = clustering q" "summary_terms p = summary_terms q"
    by (simp_all add: ArticleGroupParams_dict_def ClusteringParams_dict_eq ArticleGroupSummaryTerms_value_eq)
  with assms show ?thesis by (simp add: ArticleGroupParams_dict_def)
qed

lemma HashableBaseModel_eq_iff: "HashableBaseModel_eq p1 p2 \<longleftrightarrow> p1 = p2"
proof
  assume "HashableBaseModel_eq p1 p2"
  then have eq: "HashableBaseModel_dict p1 = HashableBaseModel_dict p2"
    by (simp add: HashableBaseModel_eq_def)
  show "p1 = p2"
    using eq
    by (cases p1; cases p2)
      (auto simp add: FilterSetParams_dict_eq ClusteringParams_dict_eq ArticleGroupParams_dict_eq,
       simp_all add: FilterSetParams_dict_def ClusteringParams_dict_def ArticleGroupParams_dict_def)
qed (simp add: HashableBaseModel_eq_def)

text \<open>
  C3. Within one process (one choice of the built-in hash), two parameter objects that
  are equal, as \<open>==\<close> compares them, have equal hashes. The hash of a parameter object
  is the built-in hash of its declared type name followed by all its field values, a
  nested parameter object entering with the hash of its own type name and field values;
  and that type name with those field values, at every depth, determine the object.
\<close>

theorem hash_of_equal_params:
  "(HashableBaseModel_eq p1 p2 \<longrightarrow> hash X p1 = hash X p2) \<and>
   hash X p1 = py_hash X (type_name_and_fields p1) \<and>
   (type_name_and_fields p1 = type_name_and_fields p2 \<longleftrightarrow> p1 = p2)"
  by (simp add: HashableBaseModel_eq_iff hash_type_name_and_fields type_name_and_fields_eq
      del: hash.simps)
theorem hash_of_equal_params_witness:
  "HashableBaseModel_eq (PArticleGroup example_article_group)
     (PArticleGroup
        \<lparr>clustering =
           \<lparr>filter_set = \<lparr>full_text_search_query = Some ''asthma'', temp_article_ids = None, limit = None\<rparr>,
            umap_seed = 1, umap_n_neighbors = 30, umap_metric = ''cosine'', umap_min_dist = 0,
            hdbscan_min_cluster_size = 3, hdbscan_min_samples = 3, hdbscan_cluster_selection_epsilon = 0,
            hdbscan_do_flat_clustering = False, hdbscan_cluster_flattening_epsilon = 5 / 100\<rparr>,
         num_terms = 0, summary_terms = MESH_TERMS\<rparr>) \<and>
   hash example_ext (PArticleGroup example_article_group) =
     hash example_ext
       (PArticleGroup
          \<lparr>clustering =
             \<lparr>filter_set = \<lparr>full_text_search_query = Some ''asthma'', temp_article_ids = None, limit = None\<rparr>,
              umap_seed = 1, umap_n_neighbors = 30, umap_metric = ''cosine'', umap_min_dist = 0,
              hdbscan_min_cluster_size = 3, hdbscan_min_samples = 3, hdbscan_cluster_selection_epsilon = 0,
              hdbscan_do_flat_clustering = False, hdbscan_cluster_flattening_epsilon = 5 / 100\<rparr>,
           num_terms = 0, summary_terms = MESH_TERMS\<rparr>) \<and>
   type_name_and_fields (PArticleGroup example_article_group) =
     PyModel ''ArticleGroupParams''
       [PyModel ''ClusteringParams''
          [PyModel ''FilterSetParams'' [PyStr ''asthma'', PyNone, PyNone],
           PyInt 1, PyInt 30, PyStr ''cosine'', PyFloat 0, PyInt 3, PyInt 3,
           PyFloat 0, PyBool False, PyFloat (1 / 20)],
        PyInt 0, PyStr ''mesh terms''] \<and>
   hash example_ext (PArticleGroup example_article_group) = 1336416420134582256421212"
proof -
  let ?q = "PArticleGroup
        \<lparr>clustering =
           \<lparr>filter_set = \<lparr>full_text_search_query = Some ''asthma'', temp_article_ids = None, limit = None\<rparr>,
            umap_seed = 1, umap_n_neighbors = 30, umap_metric = ''cosine'', umap_min_dist = 0,
            hdbscan_min_cluster_size = 3, hdbscan_min_samples = 3, hdbscan_cluster_selection_epsilon = 0,
            hdbscan_do_flat_clustering = False, hdbscan_cluster_flattening_epsilon = 5 / 100\<rparr>,
         num_terms = 0, summary_terms = MESH_TERMS\<rparr>"
  have eq: "HashableBaseModel_eq (PArticleGroup example_article_group) ?q"
    by (simp add: HashableBaseModel_eq_def ArticleGroupParams_dict_def ClusteringParams_dict_def
        FilterSetParams_dict_def example_article_group_def example_clustering_def example_filter_set_def)
  have fields: "type_name_and_fields (PArticleGroup example_article_group) =
     PyModel ''ArticleGroupParams''
       [PyModel ''ClusteringParams''
          [PyModel ''FilterSetParams'' [PyStr ''asthma'', PyNone, PyNone],
           PyInt 1, PyInt 30, PyStr ''cosine'', PyFloat 0, PyInt 3, PyInt 3,
           PyFloat 0, PyBool False, PyFloat (1 / 20)],
        PyInt 0, PyStr ''mesh terms'']"
    by (simp add: ArticleGroupParams_fields_def ClusteringParams_fields_def FilterSetParams_fields_def
        py_optional_def example_article_group_def example_clustering_def example_filter_set_def)
  have val: "py_hash example_ext
     (PyModel ''ArticleGroupParams''
       [PyModel ''ClusteringParams''
          [PyModel ''FilterSetParams'' [PyStr ''asthma'', PyNone, PyNone],
           PyInt 1, PyInt 30, PyStr ''cosine'', PyFloat 0, PyInt 3, PyInt 3,
           PyFloat 0, PyBool False, PyFloat (1 / 20)],
        PyInt 0, PyStr ''mesh terms'']) = 1336416420134582256421212"
    by (simp add: example_ext_def floor_eq_iff)
  from hash_of_equal_params [of "PArticleGroup example_article_group" ?q example_ext] eq fields val
  show ?thesis by (simp del: hash.simps type_name_and_fields.simps)
qed

section \<open>Article groups with no terms requested\<close>

text \<open>With \<open>num_terms = 0\<close> the loop keeps the first of the sorted candidates.\<close>

lemma top_terms_loop_zero: "top_terms_loop 0 0 (t # ts) [] = [t]"
  by simp

lemma example_clustering_key:
  "get_resource_hash_key (class_of (PClustering example_clustering)) = Inr ''clusterings''"
  by (simp add: get_resource_hash_key_def RESOURCE_HASH_KEYS_def)

lemma example_clustering_result_cls:
  "get_resource_result_cls (class_of (PClustering example_clustering)) = Inr ClusteringResult_cls"
  by (simp add: get_resource_result_cls_def RESOURCE_RESULT_CLASSES_def)

lemma example_parse_clustering:
  "parse_raw example_ext ClusteringResult_cls ''clustering'' = Inr (RClustering example_clustering_result)"
  using priv_make_clustering_round_trip [OF example_run]
  by (simp add: parse_raw_def example_text_layer)

lemma example_find_clustering:
  "find_resource example_ext example_kv (PClustering example_clustering) =
     Inr (RClustering example_clustering_result)"
  by (simp del: hash.simps
      add: find_resource_registered [OF example_clustering_key example_clustering_result_cls]
        example_kv_def hget_def hset_def example_parse_clustering)

lemma example_group_articles:
  "group_articles example_ext example_article_group example_clustering_result =
     Inr \<lparr>result = [\<lparr>id' = 0, num_articles = 3, ag_article_ids = [2, 3, 4], top_terms = [''asthma'']\<rparr>]\<rparr>"
  by (simp add: group_articles_def example_clustering_result_def example_article_group_def
      example_ext_def article_df_def unique_first_def summarize_cluster_def and_then_def Let_def)

lemma example_clustering_of_group: "clustering example_article_group = example_clustering"
  by (simp add: example_article_group_def)

text \<open>
  C8 fails on the code. The loop appends a term before it tests \<open>i >= num_terms - 1\<close>, so
  with \<open>num_terms = 0\<close> a cluster with at least one candidate term gets one top term, not
  none: here the three articles of cluster 0 share the MeSH term they are summarised by.
\<close>

theorem zero_terms_returns_a_term:
  "num_terms example_article_group = 0 \<and>
   find_resource example_ext example_kv (PClustering example_clustering) =
     Inr (RClustering example_clustering_result) \<and>
   priv_make_article_groups example_ext example_kv example_article_group =
     Some (Inr \<lparr>result =
       [\<lparr>id' = 0, num_articles = 3, ag_article_ids = [2, 3, 4], top_terms = [''asthma'']\<rparr>]\<rparr>)"
proof -
  have n: "num_terms example_article_group = 0"
    by (simp add: example_article_group_def)
  have run: "priv_make_article_groups example_ext example_kv example_article_group =
      Some (group_articles example_ext example_article_group example_clustering_result)"
    by (simp add: priv_make_article_groups_def example_clustering_of_group
        poll_resource_found [OF example_find_clustering])
  from n example_find_clustering run show ?thesis
    by (simp only: example_group_articles simp_thms)
qed

end

